theory Spec2Isabelle
  imports Complex_Main "HOL-Library.Multiset"
begin

section \<open>JavaScript strings\<close>

text \<open>
  A JavaScript string is a sequence of UTF-16 code units.  A code unit is modelled as a
  natural number (below 65536 in every real string); no function below does arithmetic
  on code units, they are only compared.  \<open>js\<close> turns an ASCII literal into such a
  sequence.
\<close>

type_synonym jchar = nat
type_synonym jstring = "nat list"

definition js :: "string \<Rightarrow> jstring" where
  "js s = map of_char s"

text \<open>ECMAScript LineTerminator: LF, CR, LS, PS.\<close>

definition isLineTerminator :: "jchar \<Rightarrow> bool" where
  "isLineTerminator c \<longleftrightarrow> c = 0x0A \<or> c = 0x0D \<or> c = 0x2028 \<or> c = 0x2029"

text \<open>
  The class \<open>\s\<close> of a regular expression, which is also the set that
  \<open>String.prototype.trim\<close> strips: WhiteSpace and LineTerminator.
\<close>

definition isSpace :: "jchar \<Rightarrow> bool" where
  "isSpace c \<longleftrightarrow>
     c = 0x09 \<or> c = 0x0A \<or> c = 0x0B \<or> c = 0x0C \<or> c = 0x0D \<or> c = 0x20 \<or> c = 0xA0 \<or>
     c = 0x1680 \<or> (0x2000 \<le> c \<and> c \<le> 0x200A) \<or> c = 0x2028 \<or> c = 0x2029 \<or>
     c = 0x202F \<or> c = 0x205F \<or> c = 0x3000 \<or> c = 0xFEFF"

text \<open>The class \<open>\d\<close> (without the unicode flag): the ten ASCII digits.\<close>

definition isDigit :: "jchar \<Rightarrow> bool" where
  "isDigit c \<longleftrightarrow> 0x30 \<le> c \<and> c \<le> 0x39"

text \<open>The class \<open>[a-zA-Z0-9_]\<close>.\<close>

definition isWordChar :: "jchar \<Rightarrow> bool" where
  "isWordChar c \<longleftrightarrow>
     (0x61 \<le> c \<and> c \<le> 0x7A) \<or> (0x41 \<le> c \<and> c \<le> 0x5A) \<or> isDigit c \<or> c = 0x5F"

definition trim :: "jstring \<Rightarrow> jstring" where
  "trim s = rev (dropWhile isSpace (rev (dropWhile isSpace s)))"

text \<open>
  \<open>String.prototype.toLowerCase\<close>, modelled on the ASCII letters; every other code
  unit is left as it is (the Unicode case mapping of non-ASCII letters is not modelled).
\<close>

definition toLowerCase :: "jstring \<Rightarrow> jstring" where
  "toLowerCase s = map (\<lambda>c. if 0x41 \<le> c \<and> c \<le> 0x5A then c + 0x20 else c) s"

text \<open>\<open>s.substring(a, b)\<close>: the arguments are swapped when \<open>a > b\<close> and clamped to the length.\<close>

definition substring :: "jstring \<Rightarrow> nat \<Rightarrow> nat \<Rightarrow> jstring" where
  "substring s a b = take (max a b - min a b) (drop (min a b) s)"

text \<open>The decimal rendering of a non-negative integer, as a template literal prints it.\<close>

function showNat :: "nat \<Rightarrow> jstring" where
  "showNat n = (if n < 10 then [0x30 + n] else showNat (n div 10) @ [0x30 + n mod 10])"
  by pat_completeness auto
termination
  by (relation "measure (\<lambda>n. n)") auto

declare showNat.simps [simp del]

section \<open>Pagination: the page count (updatePageCount)\<close>

text \<open>
  \<^verbatim>\<open>const PAGE_HEIGHT_PX = 1122.5\<close>, \<^verbatim>\<open>const PAGE_GAP_PX = 40\<close>, and
  \<^verbatim>\<open>pageCount.value = Math.max(1, Math.ceil(height / (PAGE_HEIGHT_PX + PAGE_GAP_PX)))\<close>
  where \<open>height\<close> is the measured height of the content view.  Both constants and
  their sum are exact binary fractions, so the quotient is modelled over the reals.
\<close>

definition PAGE_HEIGHT_PX :: real where
  "PAGE_HEIGHT_PX = 1122.5"

definition PAGE_GAP_PX :: real where
  "PAGE_GAP_PX = 40"

definition updatePageCount :: "real \<Rightarrow> int" where
  "updatePageCount height = max 1 \<lceil>height / (PAGE_HEIGHT_PX + PAGE_GAP_PX)\<rceil>"

section \<open>Regular-expression replacement\<close>

text \<open>
  \<open>s.replace(/re/g, ...)\<close> and \<open>s.replace(/re/, ...)\<close>.  A matcher tries the regular
  expression at the start of its argument and returns the replacement text together with
  the input that follows the match.  The global form resumes after each match; a match
  that consumes nothing advances by one code unit, as \<open>lastIndex\<close> does.
\<close>

type_synonym matcher = "jstring \<Rightarrow> (jstring \<times> jstring) option"

function replaceAll :: "matcher \<Rightarrow> jstring \<Rightarrow> jstring" where
  "replaceAll m [] = []"
| "replaceAll m (c # cs) =
     (case m (c # cs) of
        None \<Rightarrow> c # replaceAll m cs
      | Some (out, rest) \<Rightarrow>
          if length rest < length (c # cs) then out @ replaceAll m rest
          else out @ c # replaceAll m cs)"
  by pat_completeness auto
termination
  by (relation "measure (\<lambda>(m, s). length s)") auto

fun replaceFirst :: "matcher \<Rightarrow> jstring \<Rightarrow> jstring" where
  "replaceFirst m [] = (case m [] of None \<Rightarrow> [] | Some (out, rest) \<Rightarrow> out @ rest)"
| "replaceFirst m (c # cs) =
     (case m (c # cs) of None \<Rightarrow> c # replaceFirst m cs | Some (out, rest) \<Rightarrow> out @ rest)"

section \<open>Repair of truncated JSON text (repairTruncatedJson)\<close>

text \<open>Step 1: \<^verbatim>\<open>.replace(/^```json\s*/, '').replace(/```$/, '')\<close>.\<close>

definition fence :: jstring where
  "fence = [0x60, 0x60, 0x60]"

definition stripJsonFence :: "jstring \<Rightarrow> jstring" where
  "stripJsonFence s =
     (if take 7 s = fence @ js ''json'' then dropWhile isSpace (drop 7 s) else s)"

definition stripEndFence :: "jstring \<Rightarrow> jstring" where
  "stripEndFence s =
     (if 3 \<le> length s \<and> drop (length s - 3) s = fence then take (length s - 3) s else s)"

text \<open>
  Step 2: the scan that decides whether the text ends inside a string literal
  (\<open>inString\<close>, \<open>escaped\<close>).
\<close>

fun scanQuotes :: "bool \<Rightarrow> bool \<Rightarrow> jstring \<Rightarrow> bool" where
  "scanQuotes inString escaped [] = inString"
| "scanQuotes inString escaped (c # cs) =
     (if c = 0x5C \<and> \<not> escaped then scanQuotes inString True cs
      else if c = 0x22 \<and> \<not> escaped then scanQuotes (\<not> inString) False cs
      else scanQuotes inString False cs)"

definition closeString :: "jstring \<Rightarrow> jstring" where
  "closeString s = (if scanQuotes False False s then s @ [0x22] else s)"

text \<open>Step 3: \<^verbatim>\<open>.replace(/,\s*([}\]])/g, '$1').replace(/,\s*$/, '')\<close>.\<close>

definition commaCloser :: matcher where
  "commaCloser s =
     (case s of
        [] \<Rightarrow> None
      | c # cs \<Rightarrow>
          if c = 0x2C then
            (case dropWhile isSpace cs of
               [] \<Rightarrow> None
             | d # ds \<Rightarrow> if d = 0x7D \<or> d = 0x5D then Some ([d], ds) else None)
          else None)"

definition commaAtEnd :: matcher where
  "commaAtEnd s =
     (case s of
        [] \<Rightarrow> None
      | c # cs \<Rightarrow> if c = 0x2C \<and> dropWhile isSpace cs = [] then Some ([], []) else None)"

text \<open>Step 4: \<^verbatim>\<open>.replace(/}\s*{/g, '},{').replace(/]\s*\[/g, '],[')\<close>.\<close>

definition gapBetween :: "jchar \<Rightarrow> jchar \<Rightarrow> matcher" where
  "gapBetween close opn s =
     (case s of
        [] \<Rightarrow> None
      | c # cs \<Rightarrow>
          if c = close then
            (case dropWhile isSpace cs of
               [] \<Rightarrow> None
             | d # ds \<Rightarrow> if d = opn then Some ([close, 0x2C, opn], ds) else None)
          else None)"

text \<open>
  Step 5: \<^verbatim>\<open>.replace(/([{,]\s*)([a-zA-Z0-9_]+)(\s*:)/g, '$1"$2"$3')\<close>.  Each of the
  three greedy runs is followed by a code unit outside its class, so no shorter run can
  make the rest match.
\<close>

definition bareKey :: matcher where
  "bareKey s =
     (case s of
        [] \<Rightarrow> None
      | c # cs \<Rightarrow>
          if c = 0x7B \<or> c = 0x2C then
            (let ws1 = takeWhile isSpace cs; r1 = dropWhile isSpace cs;
                 key = takeWhile isWordChar r1; r2 = dropWhile isWordChar r1;
                 ws2 = takeWhile isSpace r2; r3 = dropWhile isSpace r2
             in case r3 of
                  [] \<Rightarrow> None
                | d # ds \<Rightarrow>
                    if key \<noteq> [] \<and> d = 0x3A
                    then Some (c # ws1 @ [0x22] @ key @ [0x22] @ ws2 @ [0x3A], ds)
                    else None)
          else None)"

text \<open>
  Step 6: the bracket stack.  The result is the text copied so far and the stack of
  closers still owed (innermost first); a closer that does not match the top of the stack
  is dropped.
\<close>

fun balanceScan :: "jchar list \<Rightarrow> bool \<Rightarrow> bool \<Rightarrow> jstring \<Rightarrow> jstring \<times> jchar list" where
  "balanceScan stack inString escaped [] = ([], stack)"
| "balanceScan stack inString escaped (c # cs) =
     (if c = 0x5C \<and> \<not> escaped then apfst ((#) c) (balanceScan stack inString True cs)
      else if c = 0x22 \<and> \<not> escaped then apfst ((#) c) (balanceScan stack (\<not> inString) escaped cs)
      else if inString then apfst ((#) c) (balanceScan stack inString False cs)
      else if c = 0x7B \<or> c = 0x5B then
        apfst ((#) c) (balanceScan ((if c = 0x7B then 0x7D else 0x5D) # stack) inString False cs)
      else if c = 0x7D \<or> c = 0x5D then
        (case stack of
           [] \<Rightarrow> balanceScan stack inString False cs
         | t # below \<Rightarrow>
             if t = c then apfst ((#) c) (balanceScan below inString False cs)
             else balanceScan stack inString False cs)
      else apfst ((#) c) (balanceScan stack inString False cs))"

definition balanceBrackets :: "jstring \<Rightarrow> jstring" where
  "balanceBrackets s = (case balanceScan [] False False s of (result, stack) \<Rightarrow> result @ stack)"

text \<open>Steps 1 to 5 in the order of the source.\<close>

definition cleanupJson :: "jstring \<Rightarrow> jstring" where
  "cleanupJson jsonStr =
     (let repaired = trim jsonStr;
          repaired = trim (stripEndFence (stripJsonFence repaired));
          repaired = closeString repaired;
          repaired = replaceFirst commaAtEnd (replaceAll commaCloser repaired);
          repaired = replaceAll (gapBetween 0x5D 0x5B) (replaceAll (gapBetween 0x7D 0x7B) repaired)
      in replaceAll bareKey repaired)"

definition repairTruncatedJson :: "jstring \<Rightarrow> jstring" where
  "repairTruncatedJson jsonStr =
     (if jsonStr = [] then [] else balanceBrackets (cleanupJson jsonStr))"

section \<open>A model of JSON.parse\<close>

text \<open>
  \<open>JSON.parse\<close> is a built-in of the language; the model below follows the JSON grammar
  (ECMA-404): the four white-space characters, string escapes, numbers with fraction and
  exponent, arrays and objects.  A number is its exact rational value (the rounding to a
  binary64 is not modelled); an object is the list of its members in source order, a
  repeated key keeping its first place and its last value.  \<open>None\<close> is a SyntaxError.
  The parser is driven by fuel; \<open>JSON_parse\<close> starts it with more fuel than the text
  has code units.
\<close>

datatype json =
    JNull
  | JBool bool
  | JNumber rat
  | JString jstring
  | JArray "json list"
  | JObject "(jstring \<times> json) list"

definition skipWs :: "jstring \<Rightarrow> jstring" where
  "skipWs s = dropWhile (\<lambda>c. c = 0x20 \<or> c = 0x09 \<or> c = 0x0A \<or> c = 0x0D) s"

definition hexVal :: "jchar \<Rightarrow> nat option" where
  "hexVal c =
     (if 0x30 \<le> c \<and> c \<le> 0x39 then Some (c - 0x30)
      else if 0x41 \<le> c \<and> c \<le> 0x46 then Some (c - 0x41 + 10)
      else if 0x61 \<le> c \<and> c \<le> 0x66 then Some (c - 0x61 + 10)
      else None)"

definition unescape :: "jchar \<Rightarrow> jchar option" where
  "unescape e =
     (if e = 0x22 \<or> e = 0x5C \<or> e = 0x2F then Some e
      else if e = 0x62 then Some 0x08
      else if e = 0x66 then Some 0x0C
      else if e = 0x6E then Some 0x0A
      else if e = 0x72 then Some 0x0D
      else if e = 0x74 then Some 0x09
      else None)"

text \<open>The characters of a string literal, after its opening quote.\<close>

fun parseChars :: "jstring \<Rightarrow> (jstring \<times> jstring) option" where
  "parseChars [] = None"
| "parseChars [c] = (if c = 0x22 then Some ([], []) else None)"
| "parseChars (c # e # es) =
     (if c = 0x22 then Some ([], e # es)
      else if c < 0x20 then None
      else if c = 0x5C then
        (if e = 0x75 then
           (case es of
              h1 # h2 # h3 # h4 # rest \<Rightarrow>
                (case (hexVal h1, hexVal h2, hexVal h3, hexVal h4) of
                   (Some a, Some b, Some c', Some d) \<Rightarrow>
                     map_option (apfst ((#) (((a * 16 + b) * 16 + c') * 16 + d))) (parseChars rest)
                 | _ \<Rightarrow> None)
            | _ \<Rightarrow> None)
         else (case unescape e of
                 None \<Rightarrow> None
               | Some d \<Rightarrow> map_option (apfst ((#) d)) (parseChars es)))
      else map_option (apfst ((#) c)) (parseChars (e # es)))"

definition digitsVal :: "jstring \<Rightarrow> nat" where
  "digitsVal ds = foldl (\<lambda>a c. 10 * a + (c - 0x30)) 0 ds"

text \<open>A number: \<^verbatim>\<open>-?(0|[1-9]\d*)(\.\d+)?([eE][+-]?\d+)?\<close>.\<close>

definition parseNumber :: "jstring \<Rightarrow> (rat \<times> jstring) option" where
  "parseNumber s =
     (let neg = (take 1 s = [0x2D]);
          s1 = (if neg then drop 1 s else s);
          ip = (if take 1 s1 = [0x30] then [0x30] else takeWhile isDigit s1);
          s2 = drop (length ip) s1;
          hasFrac = (take 1 s2 = [0x2E]);
          fr = (if hasFrac then takeWhile isDigit (drop 1 s2) else []);
          s3 = (if hasFrac then drop (1 + length fr) s2 else s2);
          hasExp = (take 1 s3 = [0x65] \<or> take 1 s3 = [0x45]);
          s3' = drop 1 s3;
          expNeg = (hasExp \<and> take 1 s3' = [0x2D]);
          s3'' = (if take 1 s3' = [0x2D] \<or> take 1 s3' = [0x2B] then drop 1 s3' else s3');
          ex = (if hasExp then takeWhile isDigit s3'' else []);
          s4 = (if hasExp then drop (length ex) s3'' else s3);
          mant = of_nat (digitsVal ip) + of_nat (digitsVal fr) / 10 ^ length fr;
          scaled = (if expNeg then mant / 10 ^ digitsVal ex else mant * 10 ^ digitsVal ex)
      in if ip = [] \<or> (hasFrac \<and> fr = []) \<or> (hasExp \<and> ex = []) then None
         else Some (if neg then - scaled else scaled, s4))"

fun setMember :: "jstring \<Rightarrow> json \<Rightarrow> (jstring \<times> json) list \<Rightarrow> (jstring \<times> json) list" where
  "setMember k v [] = [(k, v)]"
| "setMember k v ((k', v') # kvs) =
     (if k' = k then (k, v) # kvs else (k', v') # setMember k v kvs)"

definition objectOf :: "(jstring \<times> json) list \<Rightarrow> json" where
  "objectOf kvs = JObject (foldl (\<lambda>acc kv. setMember (fst kv) (snd kv) acc) [] kvs)"

function parseValue :: "nat \<Rightarrow> jstring \<Rightarrow> (json \<times> jstring) option"
  and parseElements :: "nat \<Rightarrow> jstring \<Rightarrow> (json list \<times> jstring) option"
  and parseMembers :: "nat \<Rightarrow> jstring \<Rightarrow> ((jstring \<times> json) list \<times> jstring) option"
where
  "parseValue fuel s =
     (if fuel = 0 then None
      else case skipWs s of
        [] \<Rightarrow> None
      | c # cs \<Rightarrow>
          if c = 0x5B then
            (case skipWs cs of
               [] \<Rightarrow> None
             | d # ds \<Rightarrow>
                 if d = 0x5D then Some (JArray [], ds)
                 else map_option (apfst JArray) (parseElements (fuel - 1) cs))
          else if c = 0x7B then
            (case skipWs cs of
               [] \<Rightarrow> None
             | d # ds \<Rightarrow>
                 if d = 0x7D then Some (JObject [], ds)
                 else map_option (apfst objectOf) (parseMembers (fuel - 1) cs))
          else if c = 0x22 then map_option (apfst JString) (parseChars cs)
          else if take 4 (c # cs) = js ''true'' then Some (JBool True, drop 4 (c # cs))
          else if take 5 (c # cs) = js ''false'' then Some (JBool False, drop 5 (c # cs))
          else if take 4 (c # cs) = js ''null'' then Some (JNull, drop 4 (c # cs))
          else map_option (apfst JNumber) (parseNumber (c # cs)))"
| "parseElements fuel s =
     (if fuel = 0 then None
      else case parseValue (fuel - 1) s of
        None \<Rightarrow> None
      | Some (v, r) \<Rightarrow>
          (case skipWs r of
             [] \<Rightarrow> None
           | d # ds \<Rightarrow>
               if d = 0x2C then map_option (apfst ((#) v)) (parseElements (fuel - 1) ds)
               else if d = 0x5D then Some ([v], ds)
               else None))"
| "parseMembers fuel s =
     (if fuel = 0 then None
      else case skipWs s of
        [] \<Rightarrow> None
      | c # cs \<Rightarrow>
          if c \<noteq> 0x22 then None
          else (case parseChars cs of
            None \<Rightarrow> None
          | Some (k, r) \<Rightarrow>
              (case skipWs r of
                 [] \<Rightarrow> None
               | d # ds \<Rightarrow>
                   if d \<noteq> 0x3A then None
                   else (case parseValue (fuel - 1) ds of
                     None \<Rightarrow> None
                   | Some (v, r2) \<Rightarrow>
                       (case skipWs r2 of
                          [] \<Rightarrow> None
                        | e # es \<Rightarrow>
                            if e = 0x2C then
                              map_option (apfst ((#) (k, v))) (parseMembers (fuel - 1) es)
                            else if e = 0x7D then Some ([(k, v)], es)
                            else None)))))"
  by pat_completeness auto
termination
  by (relation "measure (\<lambda>x. case x of Inl (n, _) \<Rightarrow> n | Inr (Inl (n, _)) \<Rightarrow> n | Inr (Inr (n, _)) \<Rightarrow> n)")
    auto

declare parseValue.simps [simp del] parseElements.simps [simp del] parseMembers.simps [simp del]

definition JSON_parse :: "jstring \<Rightarrow> json option" where
  "JSON_parse s =
     (case parseValue (2 * length s + 2) s of
        None \<Rightarrow> None
      | Some (v, rest) \<Rightarrow> if skipWs rest = [] then Some v else None)"

section \<open>Sections of the document\<close>

text \<open>
  A section identifier is a number or a string; \<open>===\<close> on identifiers is equality of
  these values.  \<open>truthyId\<close> is the truth value JavaScript gives an identifier in a
  condition: \<open>0\<close> and the empty string are false.  \<open>idToString\<close> is what a template
  literal prints.
\<close>

datatype jsid = IdNum int | IdStr jstring

fun truthyId :: "jsid \<Rightarrow> bool" where
  "truthyId (IdNum n) = (n \<noteq> 0)"
| "truthyId (IdStr s) = (s \<noteq> [])"

fun idToString :: "jsid \<Rightarrow> jstring" where
  "idToString (IdNum n) = (if n < 0 then 0x2D # showNat (nat (- n)) else showNat (nat n))"
| "idToString (IdStr s) = s"

datatype status = Pending | Writing | Completed

text \<open>
  An element of \<open>documentData\<close>.  \<open>parentId = None\<close> stands for both \<open>null\<close> and
  \<open>undefined\<close>.
\<close>

record doc_section =
  sec_id :: jsid
  parentId :: "jsid option"
  title :: jstring
  content :: jstring
  targetWords :: int
  status :: status

section \<open>Titles: getNormalizedTitle, getSectionNumberPrefix, fixSectionTitleNumbering\<close>

text \<open>\<^verbatim>\<open>.replace(/^#+\s+/, '')\<close>\<close>

definition stripHashes :: "jstring \<Rightarrow> jstring" where
  "stripHashes s =
     (let r = dropWhile (\<lambda>c. c = 0x23) s
      in if takeWhile (\<lambda>c. c = 0x23) s \<noteq> [] \<and> takeWhile isSpace r \<noteq> []
         then dropWhile isSpace r else s)"

text \<open>\<^verbatim>\<open>.replace(/^[\d.]+\s*/, '')\<close>\<close>

definition stripNumbering :: "jstring \<Rightarrow> jstring" where
  "stripNumbering s =
     (if takeWhile (\<lambda>c. isDigit c \<or> c = 0x2E) s \<noteq> []
      then dropWhile isSpace (dropWhile (\<lambda>c. isDigit c \<or> c = 0x2E) s) else s)"

text \<open>\<^verbatim>\<open>.replace(/\*\*/g, '')\<close>\<close>

definition doubleStar :: matcher where
  "doubleStar s =
     (case s of
        a # b # rest \<Rightarrow> if a = 0x2A \<and> b = 0x2A then Some ([], rest) else None
      | _ \<Rightarrow> None)"

text \<open>\<^verbatim>\<open>.replace(/\s+/g, ' ')\<close>\<close>

definition spaceRun :: matcher where
  "spaceRun s =
     (if takeWhile isSpace s \<noteq> [] then Some ([0x20], dropWhile isSpace s) else None)"

definition getNormalizedTitle :: "jstring \<Rightarrow> jstring" where
  "getNormalizedTitle t =
     (if t = [] then []
      else replaceAll spaceRun
             (replaceAll doubleStar (stripNumbering (stripHashes (toLowerCase (trim t))))))"

text \<open>The groups \<^verbatim>\<open>(\.\d+)*\<close> of \<^verbatim>\<open>/^(\d+(\.\d+)*)\.?\s*/\<close>, taken greedily.\<close>

function dottedGroups :: "jstring \<Rightarrow> jstring" where
  "dottedGroups [] = []"
| "dottedGroups (c # cs) =
     (if c = 0x2E \<and> takeWhile isDigit cs \<noteq> []
      then c # takeWhile isDigit cs @ dottedGroups (dropWhile isDigit cs) else [])"
  by pat_completeness auto
termination
  by (relation "measure length") (auto simp: le_imp_less_Suc length_dropWhile_le)

text \<open>
  The class of the ten Chinese numerals from one to ten (U+4E00, U+4E8C, U+4E09, U+56DB,
  U+4E94, U+516D, U+4E03, U+516B, U+4E5D, U+5341) and the table \<open>chineseNums\<close>, from
  one to twenty.
\<close>

definition isChineseNumeral :: "jchar \<Rightarrow> bool" where
  "isChineseNumeral c \<longleftrightarrow>
     c = 0x4E00 \<or> c = 0x4E8C \<or> c = 0x4E09 \<or> c = 0x56DB \<or> c = 0x4E94 \<or>
     c = 0x516D \<or> c = 0x4E03 \<or> c = 0x516B \<or> c = 0x4E5D \<or> c = 0x5341"

definition chineseNums :: "jstring \<Rightarrow> jstring option" where
  "chineseNums k =
     map_of
       [([0x4E00], js ''1''), ([0x4E8C], js ''2''), ([0x4E09], js ''3''), ([0x56DB], js ''4''),
        ([0x4E94], js ''5''), ([0x516D], js ''6''), ([0x4E03], js ''7''), ([0x516B], js ''8''),
        ([0x4E5D], js ''9''), ([0x5341], js ''10''),
        ([0x5341, 0x4E00], js ''11''), ([0x5341, 0x4E8C], js ''12''), ([0x5341, 0x4E09], js ''13''),
        ([0x5341, 0x56DB], js ''14''), ([0x5341, 0x4E94], js ''15''), ([0x5341, 0x516D], js ''16''),
        ([0x5341, 0x4E03], js ''17''), ([0x5341, 0x516B], js ''18''), ([0x5341, 0x4E5D], js ''19''),
        ([0x4E8C, 0x5341], js ''20'')] k"

text \<open>
  The three patterns of the source in their order: an Arabic dotted number, a Chinese
  numeral followed by the enumeration comma U+3001, a Chinese numeral between full-width
  parentheses U+FF08 and U+FF09.  In the third the captured group ends with the closing
  parenthesis, which the two \<open>replace\<close> calls remove again.
\<close>

definition getSectionNumberPrefix :: "jstring \<Rightarrow> jstring" where
  "getSectionNumberPrefix t =
     (if takeWhile isDigit t \<noteq> [] then takeWhile isDigit t @ dottedGroups (dropWhile isDigit t)
      else if takeWhile isChineseNumeral t \<noteq> [] \<and> take 1 (dropWhile isChineseNumeral t) = [0x3001]
      then (case chineseNums (takeWhile isChineseNumeral t) of
              Some v \<Rightarrow> v
            | None \<Rightarrow> takeWhile isChineseNumeral t)
      else if take 1 t = [0xFF08] \<and> takeWhile isChineseNumeral (drop 1 t) \<noteq> [] \<and>
              take 1 (dropWhile isChineseNumeral (drop 1 t)) = [0xFF09]
      then (case chineseNums (takeWhile isChineseNumeral (drop 1 t)) of
              Some v \<Rightarrow> v
            | None \<Rightarrow> takeWhile isChineseNumeral (drop 1 t))
      else [])"

definition fixSectionTitleNumbering :: "jstring \<Rightarrow> jstring \<Rightarrow> nat \<Rightarrow> jstring" where
  "fixSectionTitleNumbering parentTitle childTitle index =
     (let parentPrefix = getSectionNumberPrefix parentTitle;
          normalizedChildTitle = getNormalizedTitle childTitle
      in if parentPrefix \<noteq> []
         then parentPrefix @ [0x2E] @ showNat (index + 1) @ [0x20] @ normalizedChildTitle
         else childTitle)"

section \<open>Hierarchy from numbering (reconstructHierarchy)\<close>

text \<open>\<open>prefixMap\<close>: a later section with the same prefix overwrites an earlier one.\<close>

definition prefixMapOf :: "doc_section list \<Rightarrow> (jstring \<rightharpoonup> jsid)" where
  "prefixMapOf data =
     foldl (\<lambda>m item. if getSectionNumberPrefix (title item) \<noteq> []
                      then m(getSectionNumberPrefix (title item) \<mapsto> sec_id item) else m)
       Map.empty data"

text \<open>\<open>s.split(d)\<close> and \<open>parts.join(d)\<close> for a one-character separator.\<close>

fun splitOn :: "jchar \<Rightarrow> jstring \<Rightarrow> jstring list" where
  "splitOn d [] = [[]]"
| "splitOn d (c # cs) =
     (if c = d then [] # splitOn d cs
      else case splitOn d cs of [] \<Rightarrow> [[c]] | p # ps \<Rightarrow> (c # p) # ps)"

fun joinWith :: "jchar \<Rightarrow> jstring list \<Rightarrow> jstring" where
  "joinWith d [] = []"
| "joinWith d [p] = p"
| "joinWith d (p # q # ps) = p @ d # joinWith d (q # ps)"

text \<open>
  The second pass.  \<open>if (parentId)\<close> tests the truth value of the identifier found in
  the map, so an identifier \<open>0\<close> or \<open>''\<close> counts as not found.
\<close>

definition withParent :: "(jstring \<rightharpoonup> jsid) \<Rightarrow> doc_section \<Rightarrow> doc_section" where
  "withParent prefixMap item =
     (let prefix = getSectionNumberPrefix (title item)
      in if prefix = [] then item\<lparr>parentId := parentId item\<rparr>
         else let parts = splitOn 0x2E prefix
              in if length parts > 1 then
                   (case prefixMap (joinWith 0x2E (butlast parts)) of
                      Some pid \<Rightarrow>
                        if truthyId pid then item\<lparr>parentId := Some pid\<rparr>
                        else item\<lparr>parentId := None\<rparr>
                    | None \<Rightarrow> item\<lparr>parentId := None\<rparr>)
                 else item\<lparr>parentId := None\<rparr>)"

text \<open>
  The comparator of the third pass.  \<open>Number(part)\<close> is \<open>None\<close> for NaN: the parts of a
  prefix are digit strings, or Chinese numerals the table does not list.  The comparator
  returns \<open>None\<close> for NaN as well, which \<open>sort\<close> treats as \<open>0\<close>.
\<close>

definition partNumber :: "jstring \<Rightarrow> int option" where
  "partNumber p = (if list_all isDigit p then Some (int (digitsVal p)) else None)"

definition partAt :: "int option list \<Rightarrow> nat \<Rightarrow> int option" where
  "partAt ps i = (if i < length ps then ps ! i else Some (- 1))"

fun firstDifference :: "int option list \<Rightarrow> int option list \<Rightarrow> nat list \<Rightarrow> int option" where
  "firstDifference partsA partsB [] = Some 0"
| "firstDifference partsA partsB (i # rest) =
     (case (partAt partsA i, partAt partsB i) of
        (Some vA, Some vB) \<Rightarrow>
          if vA \<noteq> vB then Some (vA - vB) else firstDifference partsA partsB rest
      | _ \<Rightarrow> None)"

definition compareSections :: "doc_section \<Rightarrow> doc_section \<Rightarrow> int option" where
  "compareSections a b =
     (let prefixA = getSectionNumberPrefix (title a);
          prefixB = getSectionNumberPrefix (title b)
      in if prefixA = [] \<and> prefixB = [] then Some 0
         else if prefixA = [] then Some 1
         else if prefixB = [] then Some (- 1)
         else let partsA = map partNumber (splitOn 0x2E prefixA);
                  partsB = map partNumber (splitOn 0x2E prefixB)
              in firstDifference partsA partsB [0 ..< max (length partsA) (length partsB)])"

text \<open>
  \<open>Array.prototype.sort\<close> with a comparator, modelled as the stable insertion sort: an
  element goes before the first element it compares less than.  For a consistent
  comparator every stable sort gives this order; for an inconsistent one (a NaN result)
  the language leaves the order to the implementation, and only the fact that the result
  is a rearrangement of the input is common to all of them.
\<close>

fun insertSorted :: "('a \<Rightarrow> 'a \<Rightarrow> int option) \<Rightarrow> 'a \<Rightarrow> 'a list \<Rightarrow> 'a list" where
  "insertSorted cmp x [] = [x]"
| "insertSorted cmp x (y # ys) =
     (if (case cmp x y of Some v \<Rightarrow> v < 0 | None \<Rightarrow> False) then x # y # ys
      else y # insertSorted cmp x ys)"

definition sortWith :: "('a \<Rightarrow> 'a \<Rightarrow> int option) \<Rightarrow> 'a list \<Rightarrow> 'a list" where
  "sortWith cmp xs = foldl (\<lambda>acc x. insertSorted cmp x acc) [] xs"

definition reconstructHierarchy :: "doc_section list \<Rightarrow> doc_section list" where
  "reconstructHierarchy data =
     (if data = [] then []
      else sortWith compareSections (map (withParent (prefixMapOf data)) data))"

section \<open>Heading inference: the merges into the outline\<close>

text \<open>
  The headings of \<^verbatim>\<open>/^(##+|###+)\s+(.+)$/gm\<close>.  A match starts at the beginning of a line
  with two or more \<open>#\<close> (the first alternative takes them all, and giving one back
  leaves a \<open>#\<close> where white space is required), then white space, then the rest of the
  line.  \<open>\s\<close> also matches line terminators and \<open>.\<close> does not, so the white space may
  run over line ends; it gives back code units only when nothing but white space follows
  (\<open>headingBacktrack\<close>).
\<close>

record hmatch =
  m_index :: nat
  m_all :: jstring
  m_level :: jstring
  m_title :: jstring

fun headingBacktrack :: "jstring \<Rightarrow> jstring \<Rightarrow> (jstring \<times> jstring) option" where
  "headingBacktrack [] rest = None"
| "headingBacktrack (w # ws) rest =
     (case takeWhile (\<lambda>c. \<not> isLineTerminator c) rest of
        [] \<Rightarrow> headingBacktrack ws (w # rest)
      | t # ts \<Rightarrow> Some (rev (w # ws), t # ts))"

definition headingAt :: "jstring \<Rightarrow> (jstring \<times> jstring \<times> jstring) option" where
  "headingAt s =
     (let hashes = takeWhile (\<lambda>c. c = 0x23) s;
          r = dropWhile (\<lambda>c. c = 0x23) s
      in if length hashes < 2 then None
         else case headingBacktrack (rev (takeWhile isSpace r)) (dropWhile isSpace r) of
           None \<Rightarrow> None
         | Some (ws, t) \<Rightarrow> Some (hashes @ ws @ t, hashes, t))"

function headingMatchAll :: "nat \<Rightarrow> bool \<Rightarrow> jstring \<Rightarrow> hmatch list" where
  "headingMatchAll i atLineStart [] = []"
| "headingMatchAll i atLineStart (c # cs) =
     (case (if atLineStart then headingAt (c # cs) else None) of
        None \<Rightarrow> headingMatchAll (i + 1) (isLineTerminator c) cs
      | Some (whole, hashes, t) \<Rightarrow>
          if 0 < length whole \<and> length whole \<le> length (c # cs) then
            \<lparr>m_index = i, m_all = whole, m_level = hashes, m_title = t\<rparr> #
              headingMatchAll (i + length whole) (isLineTerminator (last whole))
                (drop (length whole) (c # cs))
          else headingMatchAll (i + 1) (isLineTerminator c) cs)"
  by pat_completeness auto
termination
  by (relation "measure (\<lambda>(i, a, s). length s)") auto

definition headings :: "jstring \<Rightarrow> hmatch list" where
  "headings fullContent = headingMatchAll 0 True fullContent"

text \<open>\<open>findIndex\<close> and \<open>findLastIndex\<close>; \<open>None\<close> is the result \<open>-1\<close>.\<close>

fun findIndex :: "('a \<Rightarrow> bool) \<Rightarrow> 'a list \<Rightarrow> nat option" where
  "findIndex P [] = None"
| "findIndex P (x # xs) = (if P x then Some 0 else map_option Suc (findIndex P xs))"

fun findLastIndex :: "('a \<Rightarrow> bool) \<Rightarrow> 'a list \<Rightarrow> nat option" where
  "findLastIndex P [] = None"
| "findLastIndex P (x # xs) =
     (case findLastIndex P xs of
        Some k \<Rightarrow> Some (Suc k)
      | None \<Rightarrow> if P x then Some 0 else None)"

text \<open>\<open>list.splice(k + 1, 0, ...new)\<close> where \<open>k\<close> is the result of a find (\<open>-1\<close> gives position 0).\<close>

definition spliceAfter :: "nat option \<Rightarrow> 'a list \<Rightarrow> 'a list \<Rightarrow> 'a list" where
  "spliceAfter k new xs =
     (case k of None \<Rightarrow> new @ xs | Some j \<Rightarrow> take (Suc j) xs @ new @ drop (Suc j) xs)"

text \<open>The level of the parent: \<open>parent.parentId ? 3 : 2\<close>.\<close>

definition parentLevelOf :: "doc_section \<Rightarrow> nat" where
  "parentLevelOf parent =
     (case parentId parent of None \<Rightarrow> 2 | Some p \<Rightarrow> if truthyId p then 3 else 2)"

text \<open>
  \<open>syncSubSectionsToOutlineRealtime\<close>.  The state of the \<open>forEach\<close> loop is the document
  and the set \<open>existingTitles\<close>.  \<open>clock i\<close> is what \<open>Date.now()\<close> returns in round
  \<open>i\<close>.  Saving the document is left out.
\<close>

definition realtimeStep ::
  "(nat \<Rightarrow> nat) \<Rightarrow> jsid \<Rightarrow> doc_section \<Rightarrow> doc_section list \<times> jstring list \<Rightarrow> nat \<times> hmatch \<Rightarrow>
     doc_section list \<times> jstring list" where
  "realtimeStep clock pid parent st im =
     (let doc = fst st; existingTitles = snd st; i = fst im; m = snd im;
          t = trim (m_title m);
          normalizedTitle = getNormalizedTitle t
      in if length (m_level m) \<le> parentLevelOf parent then st
         else if normalizedTitle \<notin> set existingTitles \<and>
                 normalizedTitle \<noteq> getNormalizedTitle (title parent) then
           (let currentChildrenCount = length (filter (\<lambda>s. parentId s = Some pid) doc);
                newSection =
                  \<lparr>sec_id = IdStr (idToString pid @ js ''-sub-tmp-'' @ showNat (clock i) @
                              js ''-'' @ showNat i),
                   parentId = Some pid,
                   title = fixSectionTitleNumbering (title parent) t currentChildrenCount,
                   content = [],
                   targetWords = 500,
                   status = Pending\<rparr>;
                lastIndex = findLastIndex (\<lambda>s. parentId s = Some pid \<or> sec_id s = pid) doc
            in (spliceAfter lastIndex [newSection] doc, normalizedTitle # existingTitles))
         else st)"

definition syncSubSectionsToOutlineRealtime ::
  "(nat \<Rightarrow> nat) \<Rightarrow> doc_section list \<Rightarrow> jsid \<Rightarrow> jstring \<Rightarrow> doc_section list" where
  "syncSubSectionsToOutlineRealtime clock doc pid fullContent =
     (let matches = headings fullContent
      in if matches = [] then doc
         else case findIndex (\<lambda>s. sec_id s = pid) doc of
           None \<Rightarrow> doc
         | Some parentIndex \<Rightarrow>
             fst (foldl (realtimeStep clock pid (doc ! parentIndex))
                    (doc, map (\<lambda>s. getNormalizedTitle (title s)) doc)
                    (enumerate 0 matches)))"

text \<open>
  \<open>syncSubSectionsToOutline\<close>, the merge at the end of the stream.  The state of its
  \<open>forEach\<close> loop is \<open>newSubSections\<close> and the set \<open>existingOtherTitles\<close>.
\<close>

definition isChildHeading :: "doc_section \<Rightarrow> hmatch \<Rightarrow> bool" where
  "isChildHeading parent m \<longleftrightarrow>
     \<not> length (m_level m) \<le> parentLevelOf parent \<and>
     getNormalizedTitle (trim (m_title m)) \<noteq> getNormalizedTitle (title parent)"

definition finalStep ::
  "(nat \<Rightarrow> nat) \<Rightarrow> jsid \<Rightarrow> doc_section \<Rightarrow> jstring \<Rightarrow> hmatch list \<Rightarrow>
     doc_section list \<times> jstring list \<Rightarrow> nat \<times> hmatch \<Rightarrow> doc_section list \<times> jstring list" where
  "finalStep clock pid parent fullContent actualMatches st im =
     (let newSubSections = fst st; existingOtherTitles = snd st; i = fst im; m = snd im;
          t = trim (m_title m);
          normalizedTitle = getNormalizedTitle t
      in if normalizedTitle \<in> set existingOtherTitles then st
         else
           (let startIdx = m_index m + length (m_all m);
                endIdx = (if i + 1 < length actualMatches then m_index (actualMatches ! (i + 1))
                          else length fullContent);
                newSection =
                  \<lparr>sec_id = IdStr (idToString pid @ js ''-sub-'' @ showNat (clock i) @
                              js ''-'' @ showNat i),
                   parentId = Some pid,
                   title = fixSectionTitleNumbering (title parent) t (length newSubSections),
                   content = trim (substring fullContent startIdx endIdx),
                   targetWords = 500,
                   status = Completed\<rparr>
            in (newSubSections @ [newSection], normalizedTitle # existingOtherTitles)))"

definition syncSubSectionsToOutline ::
  "(nat \<Rightarrow> nat) \<Rightarrow> doc_section list \<Rightarrow> jsid \<Rightarrow> jstring \<Rightarrow> doc_section list" where
  "syncSubSectionsToOutline clock doc pid fullContent =
     (let matches = headings fullContent
      in if matches = [] then doc
         else case findIndex (\<lambda>s. sec_id s = pid) doc of
           None \<Rightarrow> doc
         | Some parentIndex \<Rightarrow>
             (let parent = doc ! parentIndex;
                  actualMatches = filter (isChildHeading parent) matches
              in if actualMatches = []
                 then doc[parentIndex := parent\<lparr>content := trim fullContent\<rparr>]
                 else
                   (let firstHeadingIdx = m_index (hd actualMatches);
                        parentContent = trim (substring fullContent 0 firstHeadingIdx);
                        doc1 = doc[parentIndex := parent\<lparr>content := parentContent\<rparr>];
                        existingOtherTitles =
                          map (\<lambda>s. getNormalizedTitle (title s))
                            (filter (\<lambda>s. parentId s \<noteq> Some pid \<and> sec_id s \<noteq> pid) doc1);
                        newSubSections =
                          fst (foldl (finalStep clock pid parent fullContent actualMatches)
                                 ([], existingOtherTitles) (enumerate 0 actualMatches));
                        filteredData = filter (\<lambda>s. parentId s \<noteq> Some pid) doc1;
                        newParentIdx = findIndex (\<lambda>s. sec_id s = pid) filteredData
                    in spliceAfter newParentIdx newSubSections filteredData)))"

section \<open>The summary channel of the stream (sendMessage)\<close>

text \<open>
  \<^verbatim>\<open>fullText.match(/<summary>([\s\S]*?)(?:<\/summary>|$)/)\<close>: the match starts at the first
  \<open><summary>\<close>; the lazy group ends at the first \<open></summary>\<close> after it, or at the end
  of the text when there is none.
\<close>

fun afterFirst :: "jstring \<Rightarrow> jstring \<Rightarrow> jstring option" where
  "afterFirst pat [] = (if pat = [] then Some [] else None)"
| "afterFirst pat (c # cs) =
     (if take (length pat) (c # cs) = pat then Some (drop (length pat) (c # cs))
      else afterFirst pat cs)"

fun upToFirst :: "jstring \<Rightarrow> jstring \<Rightarrow> jstring" where
  "upToFirst pat [] = []"
| "upToFirst pat (c # cs) =
     (if take (length pat) (c # cs) = pat then [] else c # upToFirst pat cs)"

text \<open>\<open>s.includes(pat)\<close>\<close>

definition includesStr :: "jstring \<Rightarrow> jstring \<Rightarrow> bool" where
  "includesStr s pat \<longleftrightarrow> afterFirst pat s \<noteq> None"

definition summaryMatch :: "jstring \<Rightarrow> jstring option" where
  "summaryMatch fullText =
     map_option (upToFirst (js ''</summary>'')) (afterFirst (js ''<summary>'') fullText)"

text \<open>\<open>if (summaryMatch) assistantMsg.summary = summaryMatch[1].trim()\<close>\<close>

definition updateSummary :: "jstring \<Rightarrow> jstring \<Rightarrow> jstring" where
  "updateSummary summary fullText =
     (case summaryMatch fullText of None \<Rightarrow> summary | Some g \<Rightarrow> trim g)"

section \<open>Outline descriptors: validateAndFixTargetWords and parseNestedOutline\<close>

text \<open>
  An element of the outline the model returns: its fields and its nested \<open>children\<close>.
  An absent \<open>children\<close> field is the empty list; both functions below treat the two
  alike.  The type of the word budget is the parameter \<open>'w\<close>: flattening only copies the
  field, validation reads it as the JavaScript value that \<open>JSON.parse\<close> left there.
\<close>

datatype 'w outline_item =
  OutlineItem (item_id: jsid) (item_title: jstring) (level: int) (item_targetWords: 'w)
    (item_content: jstring) (children: "'w outline_item list")

text \<open>
  A JavaScript number (not a number, the two infinities, or a finite value, kept exact)
  and a JavaScript value as a field of a parsed item holds it; \<open>JsUndefined\<close> is the
  value of a field the item does not have.
\<close>

datatype number = NaN | NegInfinity | Finite rat | PosInfinity

datatype jsval =
    JsUndefined
  | JsNull
  | JsBoolean bool
  | JsNumber number
  | JsString jstring
  | JsArray "jsval list"
  | JsObject "(jstring \<times> jsval) list"

text \<open>
  \<open>ToNumber\<close>, which \<open>>\<close>, \<open><\<close>, \<open>Math.min\<close> and \<open>Math.max\<close> apply to their
  operands.  For a string it is the built-in \<open>StringToNumber\<close>, for an array or an
  object the same on the primitive it converts to; that built-in conversion is the
  parameter \<open>conv\<close>.
\<close>

fun ToNumber :: "(jsval \<Rightarrow> number) \<Rightarrow> jsval \<Rightarrow> number" where
  "ToNumber conv JsUndefined = NaN"
| "ToNumber conv JsNull = Finite 0"
| "ToNumber conv (JsBoolean b) = Finite (if b then 1 else 0)"
| "ToNumber conv (JsNumber n) = n"
| "ToNumber conv v = conv v"

text \<open>\<open>a < b\<close> on numbers: false as soon as one of them is not a number.\<close>

fun lessNum :: "number \<Rightarrow> number \<Rightarrow> bool" where
  "lessNum NaN b = False"
| "lessNum a NaN = False"
| "lessNum NegInfinity b = (b \<noteq> NegInfinity)"
| "lessNum (Finite x) NegInfinity = False"
| "lessNum (Finite x) (Finite y) = (x < y)"
| "lessNum (Finite x) PosInfinity = True"
| "lessNum PosInfinity b = False"

text \<open>\<open>Math.min\<close> and \<open>Math.max\<close> of two numbers: not a number as soon as one of them is.\<close>

definition Math_min :: "number \<Rightarrow> number \<Rightarrow> number" where
  "Math_min a b = (if a = NaN \<or> b = NaN then NaN else if lessNum b a then b else a)"

definition Math_max :: "number \<Rightarrow> number \<Rightarrow> number" where
  "Math_max a b = (if a = NaN \<or> b = NaN then NaN else if lessNum a b then b else a)"

text \<open>\<open>maxWords[item.level] || maxWords[4]\<close> and \<open>minWords\<close>.\<close>

definition levelMax :: "int \<Rightarrow> int" where
  "levelMax l =
     (if l = 1 then 150000 else if l = 2 then 80000 else if l = 3 then 20000
      else if l = 4 then 15000 else 15000)"

definition minWords :: int where
  "minWords = 50"

text \<open>
  The body of the \<open>map\<close> callback on the budget.  The condition is
  \<^verbatim>\<open>item.targetWords > levelMax || item.targetWords < minWords\<close>; a budget that is not a
  number fails both comparisons and is left as it is.
\<close>

definition fixTargetWords :: "(jsval \<Rightarrow> number) \<Rightarrow> int \<Rightarrow> jsval \<Rightarrow> jsval" where
  "fixTargetWords conv l tw =
     (if lessNum (Finite (of_int (levelMax l))) (ToNumber conv tw) \<or>
         lessNum (ToNumber conv tw) (Finite (of_int minWords)) then
        (if l = 1 then
           JsNumber (Math_max (Finite (of_int minWords)) (Math_min (Finite 100000) (ToNumber conv tw)))
         else if l = 2 then
           JsNumber (Math_max (Finite (of_int minWords)) (Math_min (Finite 50000) (ToNumber conv tw)))
         else if l = 3 then
           JsNumber (Math_max (Finite (of_int minWords)) (Math_min (Finite 10000) (ToNumber conv tw)))
         else
           JsNumber (Math_max (Finite (of_int minWords)) (Math_min (Finite 5000) (ToNumber conv tw))))
      else tw)"

fun validateAndFixTargetWords ::
  "(jsval \<Rightarrow> number) \<Rightarrow> jsval outline_item list \<Rightarrow> jsval outline_item list" where
  "validateAndFixTargetWords conv [] = []"
| "validateAndFixTargetWords conv (OutlineItem i t l tw c ch # items) =
     OutlineItem i t l (fixTargetWords conv l tw) c (validateAndFixTargetWords conv ch) #
       validateAndFixTargetWords conv items"

text \<open>
  An element of the flat list: the fields of the descriptor without \<open>children\<close>, and
  \<open>parentId\<close>.
\<close>

record 'w flat_item =
  f_id :: jsid
  f_title :: jstring
  f_level :: int
  f_targetWords :: 'w
  f_content :: jstring
  f_parentId :: "jsid option"

fun flattenOutline :: "'w outline_item list \<Rightarrow> jsid option \<Rightarrow> 'w flat_item list" where
  "flattenOutline [] parent = []"
| "flattenOutline (OutlineItem i t l tw c ch # items) parent =
     \<lparr>f_id = i, f_title = t, f_level = l, f_targetWords = tw, f_content = c,
      f_parentId = parent\<rparr> #
       (if ch \<noteq> [] then flattenOutline ch (Some i) else []) @ flattenOutline items parent"

definition parseNestedOutline :: "'w outline_item list \<Rightarrow> 'w flat_item list" where
  "parseNestedOutline nestedOutline = flattenOutline nestedOutline None"

text \<open>
  How the flat list becomes \<open>documentData\<close> when an outline has been generated:
  \<^verbatim>\<open>flatOutline.map(item => ({...item, content: item.content || '', status: item.content ? 'completed' : 'pending'}))\<close>.
\<close>

definition loadOutline :: "int flat_item list \<Rightarrow> doc_section list" where
  "loadOutline flatOutline =
     map (\<lambda>item. \<lparr>sec_id = f_id item, parentId = f_parentId item, title = f_title item,
                   content = f_content item, targetWords = f_targetWords item,
                   status = (if f_content item \<noteq> [] then Completed else Pending)\<rparr>)
       flatOutline"

section \<open>The outline tree (treeData, buildTree)\<close>

datatype tree_node =
  TreeNode (key: jsid) (node_title: jstring) (node_targetWords: int) (node_status: status)
    (isLeaf: bool) (node_children: "tree_node list")

text \<open>
  \<open>buildTree(list, parentId = null, depth = 0)\<close>.  Beyond depth 10 it returns the empty
  list.  A node without children has \<open>children: undefined\<close>, here the empty list.  The
  default title is the text U+672A U+547D U+540D U+7AE0 U+8282.
\<close>

function buildTree :: "doc_section list \<Rightarrow> jsid option \<Rightarrow> nat \<Rightarrow> tree_node list" where
  "buildTree list parent depth =
     (if depth > 10 then []
      else map (\<lambda>item.
                  TreeNode (sec_id item)
                    (if title item \<noteq> [] then title item
                     else [0x672A, 0x547D, 0x540D, 0x7AE0, 0x8282])
                    (targetWords item)
                    (status item)
                    (buildTree list (Some (sec_id item)) (depth + 1) = [])
                    (buildTree list (Some (sec_id item)) (depth + 1)))
             (filter (\<lambda>item. parentId item = parent) list))"
  by pat_completeness auto
termination
  by (relation "measure (\<lambda>(l, p, d). 11 - d)") auto

declare buildTree.simps [simp del]

definition treeData :: "doc_section list \<Rightarrow> tree_node list" where
  "treeData documentData = buildTree documentData None 0"

section \<open>Notions used to state the properties\<close>

text \<open>All descriptors of an outline, parents before their children.\<close>

fun allItems :: "'w outline_item list \<Rightarrow> 'w outline_item list" where
  "allItems [] = []"
| "allItems (OutlineItem i t l tw c ch # items) =
     OutlineItem i t l tw c ch # allItems ch @ allItems items"

text \<open>An outline with every word budget blanked: what is left is all that validation must keep.\<close>

fun eraseTargetWords :: "jsval outline_item list \<Rightarrow> jsval outline_item list" where
  "eraseTargetWords [] = []"
| "eraseTargetWords (OutlineItem i t l tw c ch # items) =
     OutlineItem i t l JsUndefined c (eraseTargetWords ch) # eraseTargetWords items"

text \<open>
  The budget of a descriptor lies within the bound of its level: as a number it is
  finite, at least the floor and at most the maximum of the level.
\<close>

definition withinBound :: "(jsval \<Rightarrow> number) \<Rightarrow> jsval outline_item \<Rightarrow> bool" where
  "withinBound conv item \<longleftrightarrow>
     (case ToNumber conv (item_targetWords item) of
        Finite r \<Rightarrow> of_int minWords \<le> r \<and> r \<le> of_int (levelMax (level item))
      | _ \<Rightarrow> False)"

text \<open>
  What validation may do to one budget: a budget that is a number ends as a number
  within the bound of the level, any other budget stays as it was.
\<close>

definition budgetFixed :: "(jsval \<Rightarrow> number) \<Rightarrow> jsval outline_item \<Rightarrow> jsval outline_item \<Rightarrow> bool" where
  "budgetFixed conv before after \<longleftrightarrow>
     level after = level before \<and>
     (if ToNumber conv (item_targetWords before) = NaN
      then item_targetWords after = item_targetWords before
      else withinBound conv after)"

text \<open>
  A conversion for outlines without strings, arrays or objects as budgets, and an outline
  as a truncated answer leaves it: the first section has a budget above every bound, the
  one nested in it has no budget at all.
\<close>

definition noConversion :: "jsval \<Rightarrow> number" where
  "noConversion v = NaN"

definition truncatedOutline :: "jsval outline_item list" where
  "truncatedOutline =
     [OutlineItem (IdStr (js ''1'')) (js ''A'') 2 (JsNumber (Finite 800000)) []
        [OutlineItem (IdStr (js ''1.1'')) (js ''B'') 3 JsUndefined [] []]]"

text \<open>
  The scenario of the final merge: a top-level section titled \<open>1. \<close> U+603B U+89C8, and
  the body with its two headings (U+80CC U+666F and U+76EE U+6807) written with two
  and with three \<open>#\<close>; the lines below the headings are U+5185 U+5BB9 followed by
  \<open>A\<close> and by \<open>B\<close>.
\<close>

definition overviewId :: jsid where
  "overviewId = IdStr (js ''sec-1'')"

definition overview :: doc_section where
  "overview =
     \<lparr>sec_id = overviewId, parentId = None, title = js ''1. '' @ [0x603B, 0x89C8],
      content = [], targetWords = 500, status = Writing\<rparr>"

definition bodyWith :: "jstring \<Rightarrow> jstring" where
  "bodyWith marker =
     marker @ [0x20, 0x80CC, 0x666F, 0x0A, 0x5185, 0x5BB9, 0x41, 0x0A] @
     marker @ [0x20, 0x76EE, 0x6807, 0x0A, 0x5185, 0x5BB9, 0x42]"

definition clockZero :: "nat \<Rightarrow> nat" where
  "clockZero i = 0"

text \<open>The payload with unquoted keys and the value it is meant to encode.\<close>

definition rawPayload :: jstring where
  "rawPayload = js ''[{title:\"A\",targetWords:100}]''"

definition payloadValue :: json where
  "payloadValue =
     JArray [JObject [(js ''title'', JString (js ''A'')), (js ''targetWords'', JNumber 100)]]"

text \<open>
  The summary channel is closed in a buffer when a closing delimiter follows the first
  opening delimiter: that is when the match ends at \<open></summary>\<close> and not at the end
  of the buffer.
\<close>

definition summaryClosed :: "jstring \<Rightarrow> bool" where
  "summaryClosed b \<longleftrightarrow>
     (case afterFirst (js ''<summary>'') b of
        None \<Rightarrow> False
      | Some r \<Rightarrow> includesStr r (js ''</summary>''))"

text \<open>A buffer whose closing delimiter comes before its opening delimiter, and a later chunk.\<close>

definition strayClose :: jstring where
  "strayClose = js ''</summary><summary>x''"

definition lateClose :: jstring where
  "lateClose = js ''y</summary>''"

text \<open>
  The parent that the numbering of a title asks for.  \<open>parentPrefixOf\<close> is the numbering
  prefix without its last component, when the prefix has at least two components;
  \<open>lastWithPrefix\<close> is the last section of the list whose title carries a given prefix;
  \<open>expectedParent\<close> is the identifier of that section for the parent prefix, when there
  is one and its identifier counts as true.
\<close>

definition parentPrefixOf :: "jstring \<Rightarrow> jstring option" where
  "parentPrefixOf t =
     (let parts = splitOn 0x2E (getSectionNumberPrefix t)
      in if getSectionNumberPrefix t \<noteq> [] \<and> 1 < length parts \<and> joinWith 0x2E (butlast parts) \<noteq> []
         then Some (joinWith 0x2E (butlast parts)) else None)"

definition lastWithPrefix :: "jstring \<Rightarrow> doc_section list \<Rightarrow> doc_section option" where
  "lastWithPrefix p data = find (\<lambda>t. getSectionNumberPrefix (title t) = p) (rev data)"

definition expectedParent :: "doc_section list \<Rightarrow> doc_section \<Rightarrow> jsid option" where
  "expectedParent data s =
     (case parentPrefixOf (title s) of
        None \<Rightarrow> None
      | Some p \<Rightarrow>
          (case lastWithPrefix p data of
             None \<Rightarrow> None
           | Some parent \<Rightarrow> if truthyId (sec_id parent) then Some (sec_id parent) else None))"

definition unlinked :: "doc_section list \<Rightarrow> bool" where
  "unlinked data \<longleftrightarrow> list_all (\<lambda>s. parentId s = None) data"

text \<open>A section as the stored outline has it before the hierarchy is rebuilt.\<close>

definition plainSection :: "jsid \<Rightarrow> jstring \<Rightarrow> doc_section" where
  "plainSection i t =
     \<lparr>sec_id = i, parentId = None, title = t, content = [], targetWords = 500, status = Pending\<rparr>"

text \<open>
  Two outlines.  In the first the section numbered \<open>1.1\<close> has the identifier \<open>0\<close>.  The
  second has a chapter numbered with the Chinese numeral one (U+4E00 U+3001), the sections
  \<open>1.1\<close>, \<open>1.1.1\<close> and \<open>2.1\<close>, and an appendix without a number.
\<close>

definition zeroIdOutline :: "doc_section list" where
  "zeroIdOutline =
     [plainSection (IdNum 0) (js ''1.1 Scope''), plainSection (IdNum 1) (js ''1.1.1 Goals'')]"

definition numberedOutline :: "doc_section list" where
  "numberedOutline =
     [plainSection (IdStr (js ''c'')) (js ''1.1.1 Goals''),
      plainSection (IdStr (js ''a'')) ([0x4E00, 0x3001] @ js ''Overview''),
      plainSection (IdStr (js ''x'')) (js ''Appendix''),
      plainSection (IdStr (js ''b'')) (js ''1.1 Scope''),
      plainSection (IdStr (js ''d'')) (js ''2.1 Orphan'')]"

text \<open>
  The shape of a forest: the identifier of every node with the shapes of its children, in
  order.  Two forests with the same shapes have the same parent-child edges.
\<close>

datatype skeleton = Skeleton jsid "skeleton list"

fun outlineSkeleton :: "'w outline_item \<Rightarrow> skeleton" where
  "outlineSkeleton (OutlineItem i t l tw c ch) = Skeleton i (map outlineSkeleton ch)"

fun treeSkeleton :: "tree_node \<Rightarrow> skeleton" where
  "treeSkeleton (TreeNode k t tw st lf ch) = Skeleton k (map treeSkeleton ch)"

text \<open>The identifiers of all descriptors of an outline, and the number of its nesting levels.\<close>

fun outlineIds :: "'w outline_item list \<Rightarrow> jsid list" where
  "outlineIds [] = []"
| "outlineIds (OutlineItem i t l tw c ch # items) = i # outlineIds ch @ outlineIds items"

fun outlineDepth :: "'w outline_item list \<Rightarrow> nat" where
  "outlineDepth [] = 0"
| "outlineDepth (OutlineItem i t l tw c ch # items) =
     max (Suc (outlineDepth ch)) (outlineDepth items)"

text \<open>The section that a descriptor becomes under a given parent.\<close>

fun asSection :: "jsid option \<Rightarrow> int outline_item \<Rightarrow> doc_section" where
  "asSection parent (OutlineItem i t l tw c ch) =
     \<lparr>sec_id = i, parentId = parent, title = t, content = c, targetWords = tw,
      status = (if c \<noteq> [] then Completed else Pending)\<rparr>"

text \<open>
  In a list of sections, every node of a forest finds its children: the sections whose
  \<open>parentId\<close> is the node are the node's children, in their order.
\<close>

fun childrenFound :: "doc_section list \<Rightarrow> int outline_item list \<Rightarrow> bool" where
  "childrenFound secs [] = True"
| "childrenFound secs (OutlineItem i t l tw c ch # items) =
     (filter (\<lambda>s. parentId s = Some i) secs = map (asSection (Some i)) ch \<and>
      childrenFound secs ch \<and> childrenFound secs items)"

text \<open>A chain of descriptors nested one in the next, numbered from the given identifier up.\<close>

function chain :: "nat \<Rightarrow> int \<Rightarrow> int outline_item list" where
  "chain n i =
     (if n = 0 then []
      else [OutlineItem (IdNum i) (js ''t'') 1 500 [] (chain (n - 1) (i + 1))])"
  by pat_completeness auto
termination
  by (relation "measure fst") auto

declare chain.simps [simp del]

text \<open>A small outline: two chapters, the first with two sections, the second of which has one subsection.\<close>

definition sampleOutline :: "int outline_item list" where
  "sampleOutline =
     [OutlineItem (IdStr (js ''1'')) (js ''Overview'') 1 3000 []
        [OutlineItem (IdStr (js ''1.1'')) (js ''Scope'') 2 1000 [] [],
         OutlineItem (IdStr (js ''1.2'')) (js ''Goals'') 2 2000 []
           [OutlineItem (IdStr (js ''1.2.1'')) (js ''Metrics'') 3 500 [] []]],
      OutlineItem (IdStr (js ''2'')) (js ''Plan'') 1 2000 [] []]"


text \<open>
  The normalized titles of a document, the title of the section with a given identifier
  (empty when there is none), and the condition under which a synthesized child keeps the
  normalized title of its heading: numbering the heading's title, with any index below
  the bound, and normalizing the result gives the normalized title of the heading again.
\<close>

definition normTitles :: "doc_section list \<Rightarrow> jstring list" where
  "normTitles doc = map (\<lambda>s. getNormalizedTitle (title s)) doc"



definition headingTitle :: "hmatch \<Rightarrow> jstring" where
  "headingTitle m = getNormalizedTitle (trim (m_title m))"



definition fooOutline :: "doc_section list" where
  "fooOutline = [overview, plainSection (IdStr (js ''sec-2'')) (js ''2. foo'')]"

text \<open>A heading whose title has a space inside its bold markers.\<close>

definition spacedHeading :: jstring where
  "spacedHeading = js ''### ** foo**''"

text \<open>
  The scan of steps 2 and 6, one code unit at a time, on the state (stack, inString,
  escaped).  It follows the loop of step 6 and gives \<open>None\<close> where the loop drops a
  closer that does not match the top of the stack.
\<close>

fun scanChar :: "jchar list \<times> bool \<times> bool \<Rightarrow> jchar \<Rightarrow> (jchar list \<times> bool \<times> bool) option" where
  "scanChar (stack, inString, escaped) c =
     (if c = 0x5C \<and> \<not> escaped then Some (stack, inString, True)
      else if c = 0x22 \<and> \<not> escaped then Some (stack, \<not> inString, False)
      else if inString then Some (stack, inString, False)
      else if c = 0x7B \<or> c = 0x5B then
        Some ((if c = 0x7B then 0x7D else 0x5D) # stack, inString, False)
      else if c = 0x7D \<or> c = 0x5D then
        (case stack of
           [] \<Rightarrow> None
         | t # below \<Rightarrow> if t = c then Some (below, inString, False) else None)
      else Some (stack, inString, False))"

declare scanChar.simps [simp del]

definition scanText ::
  "(jchar list \<times> bool \<times> bool) option \<Rightarrow> jstring \<Rightarrow> (jchar list \<times> bool \<times> bool) option" where
  "scanText st s = foldl (\<lambda>st c. case st of None \<Rightarrow> None | Some t \<Rightarrow> scanChar t c) st s"



text \<open>
  Somewhere in the text the code unit \<open>x\<close> is followed, after optional white space, by
  a code unit in \<open>Y\<close>.  The state is (the last code unit that is not white space is
  \<open>x\<close>, such a pair has been seen).
\<close>

definition gapStep :: "jchar \<Rightarrow> (jchar \<Rightarrow> bool) \<Rightarrow> bool \<times> bool \<Rightarrow> jchar \<Rightarrow> bool \<times> bool" where
  "gapStep x Y st c = (if isSpace c then st else (c = x, snd st \<or> (fst st \<and> Y c)))"




text \<open>
  Somewhere in the text the regular expression of step 5 matches: an opening brace or a
  comma, optional white space, a run of word characters, optional white space, a colon.
  The state is (how far a match has come, a match has been seen): no match begun, after
  the first code unit and white space, inside the run, in the white space after it.
\<close>

datatype key_state = Idle | Opened | InKey | AfterKey

definition keyStep :: "key_state \<times> bool \<Rightarrow> jchar \<Rightarrow> key_state \<times> bool" where
  "keyStep st c =
     (if c = 0x7B \<or> c = 0x2C then (Opened, snd st)
      else case fst st of
        Idle \<Rightarrow> (Idle, snd st)
      | Opened \<Rightarrow>
          if isSpace c then (Opened, snd st) else if isWordChar c then (InKey, snd st)
          else (Idle, snd st)
      | InKey \<Rightarrow>
          if isWordChar c then (InKey, snd st) else if isSpace c then (AfterKey, snd st)
          else if c = 0x3A then (Idle, True) else (Idle, snd st)
      | AfterKey \<Rightarrow>
          if isSpace c then (AfterKey, snd st) else if c = 0x3A then (Idle, True)
          else (Idle, snd st))"





text \<open>The first code unit after the leading white space of the text is in \<open>P\<close>.\<close>

definition nextIs :: "(jchar \<Rightarrow> bool) \<Rightarrow> jstring \<Rightarrow> bool" where
  "nextIs P s = (case dropWhile isSpace s of [] \<Rightarrow> False | d # r \<Rightarrow> P d)"





section \<open>Evaluation rules\<close>

lemmas char_defs =
  js_def isSpace_def isDigit_def isWordChar_def isLineTerminator_def isChineseNumeral_def

lemmas repair_defs =
  repairTruncatedJson_def cleanupJson_def balanceBrackets_def bareKey_def gapBetween_def
  commaAtEnd_def commaCloser_def closeString_def stripEndFence_def stripJsonFence_def fence_def
  trim_def Let_def

lemmas parse_defs =
  JSON_parse_def parseValue.simps parseElements.simps parseMembers.simps skipWs_def
  parseNumber_def digitsVal_def objectOf_def unescape_def hexVal_def Let_def

lemmas title_defs =
  getNormalizedTitle_def stripHashes_def stripNumbering_def doubleStar_def spaceRun_def
  toLowerCase_def trim_def getSectionNumberPrefix_def chineseNums_def
  fixSectionTitleNumbering_def

lemmas merge_defs =
  syncSubSectionsToOutline_def syncSubSectionsToOutlineRealtime_def finalStep_def
  realtimeStep_def isChildHeading_def parentLevelOf_def spliceAfter_def headings_def
  headingAt_def substring_def enumerate_eq_zip Let_def

lemma showNat_digit: "n < 10 \<Longrightarrow> showNat n = [0x30 + n]"
  by (simp add: showNat.simps)

section \<open>Pagination\<close>

text \<open>
  C2 (counterexample).  With a content height of \<open>PAGE_HEIGHT_PX\<close> plus one pixel the
  page count is not 2; the same holds for the whole pixel heights 1123 and 1124 next to
  it.
\<close>

theorem updatePageCount_one_more_pixel:
  "updatePageCount (PAGE_HEIGHT_PX + 1) \<noteq> 2 \<and> updatePageCount 1123 \<noteq> 2 \<and>
   updatePageCount 1124 \<noteq> 2"
  by (simp add: updatePageCount_def PAGE_HEIGHT_PX_def PAGE_GAP_PX_def)

text \<open>
  C2 (amended).  The page count is the least \<open>n \<ge> 1\<close> with
  \<open>height \<le> n * (PAGE_HEIGHT_PX + PAGE_GAP_PX)\<close>, which is
  \<open>max(1, ceil(height / (PAGE_HEIGHT_PX + PAGE_GAP_PX)))\<close>.  A content height of exactly
  \<open>PAGE_HEIGHT_PX\<close> gives one page, and so does one more pixel; the count becomes 2 only
  above \<open>PAGE_HEIGHT_PX + PAGE_GAP_PX\<close>.
\<close>

theorem updatePageCount_pages:
  "(updatePageCount h = n) =
     (1 \<le> n \<and>
      (if n = 1 then h \<le> PAGE_HEIGHT_PX + PAGE_GAP_PX
       else (of_int n - 1) * (PAGE_HEIGHT_PX + PAGE_GAP_PX) < h \<and>
            h \<le> of_int n * (PAGE_HEIGHT_PX + PAGE_GAP_PX))) \<and>
   updatePageCount PAGE_HEIGHT_PX = 1 \<and>
   updatePageCount (PAGE_HEIGHT_PX + 1) = 1 \<and>
   updatePageCount (PAGE_HEIGHT_PX + PAGE_GAP_PX) = 1 \<and>
   updatePageCount (PAGE_HEIGHT_PX + PAGE_GAP_PX + 1) = 2"
proof -
  define D where "D = PAGE_HEIGHT_PX + PAGE_GAP_PX"
  have D: "0 < D"
    by (simp add: D_def PAGE_HEIGHT_PX_def PAGE_GAP_PX_def)
  have one: "\<lceil>h / D\<rceil> \<le> 1 \<longleftrightarrow> h \<le> D"
    using D by (simp add: ceiling_le_iff pos_divide_le_eq)
  have more: "\<lceil>h / D\<rceil> = n \<longleftrightarrow> (of_int n - 1) * D < h \<and> h \<le> of_int n * D"
    using D by (simp add: ceiling_eq_iff pos_divide_le_eq pos_less_divide_eq)
  have mx: "(max 1 c = n) = (1 \<le> n \<and> (if n = 1 then c \<le> 1 else c = n))" for c :: int
    by (auto simp: max_def)
  have general: "(updatePageCount h = n) =
     (1 \<le> n \<and> (if n = 1 then h \<le> D else (of_int n - 1) * D < h \<and> h \<le> of_int n * D))"
    by (simp only: updatePageCount_def D_def[symmetric] mx one more)
  have examples: "updatePageCount PAGE_HEIGHT_PX = 1 \<and>
      updatePageCount (PAGE_HEIGHT_PX + 1) = 1 \<and>
      updatePageCount (PAGE_HEIGHT_PX + PAGE_GAP_PX) = 1 \<and>
      updatePageCount (PAGE_HEIGHT_PX + PAGE_GAP_PX + 1) = 2"
    by (simp add: updatePageCount_def PAGE_HEIGHT_PX_def PAGE_GAP_PX_def)
  from general examples show ?thesis
    unfolding D_def by blast
qed

section \<open>Word budgets\<close>

lemma fixTargetWords_NaN:
  "ToNumber conv tw = NaN \<Longrightarrow> fixTargetWords conv l tw = tw"
  by (simp add: fixTargetWords_def)

lemma fixTargetWords_bounds:
  assumes "ToNumber conv tw \<noteq> NaN"
  shows "\<exists>r. ToNumber conv (fixTargetWords conv l tw) = Finite r \<and>
             of_int minWords \<le> r \<and> r \<le> of_int (levelMax l)"
  using assms
  by (cases "ToNumber conv tw")
    (simp_all add: fixTargetWords_def levelMax_def minWords_def Math_min_def Math_max_def)

lemma fixTargetWords_fixed:
  "budgetFixed conv (OutlineItem i t l tw c ch) (OutlineItem i' t' l (fixTargetWords conv l tw) c' ch')"
proof (cases "ToNumber conv tw = NaN")
  case True
  then show ?thesis by (simp add: budgetFixed_def fixTargetWords_NaN)
next
  case False
  from fixTargetWords_bounds[OF this, of l] False show ?thesis
    by (auto simp: budgetFixed_def withinBound_def)
qed

lemma validate_keeps_items:
  "eraseTargetWords (validateAndFixTargetWords conv items) = eraseTargetWords items"
  by (induction conv items rule: validateAndFixTargetWords.induct) simp_all

lemma validate_length:
  "length (validateAndFixTargetWords conv items) = length items"
  by (induction conv items rule: validateAndFixTargetWords.induct) simp_all

lemma validate_budgets:
  "list_all2 (budgetFixed conv) (allItems items) (allItems (validateAndFixTargetWords conv items))"
proof (induction conv items rule: validateAndFixTargetWords.induct)
  case (1 conv)
  then show ?case by simp
next
  case (2 conv i t l tw c ch items)
  from 2 have "list_all2 (budgetFixed conv) (allItems ch @ allItems items)
      (allItems (validateAndFixTargetWords conv ch) @ allItems (validateAndFixTargetWords conv items))"
    by (intro list_all2_appendI)
  with fixTargetWords_fixed show ?case by simp
qed

text \<open>
  C5 (counterexample).  A level-3 descriptor without a word budget comes back without
  one: validation leaves the outline that holds only this descriptor as it is, and its
  budget is not within the bound of its level.
\<close>

theorem validate_absent_budget:
  "validateAndFixTargetWords noConversion
     [OutlineItem (IdStr (js ''1.1'')) (js ''B'') 3 JsUndefined [] []] =
     [OutlineItem (IdStr (js ''1.1'')) (js ''B'') 3 JsUndefined [] []] \<and>
   \<not> list_all (withinBound noConversion)
       (allItems (validateAndFixTargetWords noConversion
          [OutlineItem (IdStr (js ''1.1'')) (js ''B'') 3 JsUndefined [] []]))"
  by (simp add: fixTargetWords_def withinBound_def)

text \<open>
  C5 (amended).  Validation keeps every descriptor, with all its fields but the word
  budget and with its nesting.  At every depth, a budget that is a number (or converts to
  one) ends as a number between the floor 50 and the bound of its level (150000, 80000,
  20000, and 15000 from level 4 on), and a budget that is absent or not a number is left
  as it was.  A level-2 descriptor with a budget of 800000 comes back with 50000.
\<close>

theorem validateAndFixTargetWords_clamps:
  "eraseTargetWords (validateAndFixTargetWords conv items) = eraseTargetWords items \<and>
   length (validateAndFixTargetWords conv items) = length items \<and>
   list_all2 (budgetFixed conv) (allItems items) (allItems (validateAndFixTargetWords conv items)) \<and>
   levelMax 1 = 150000 \<and> levelMax 2 = 80000 \<and> levelMax 3 = 20000 \<and>
   (if 4 \<le> l then levelMax l = 15000 else True) \<and> minWords = 50 \<and>
   validateAndFixTargetWords conv [OutlineItem i t 2 (JsNumber (Finite 800000)) c []] =
     [OutlineItem i t 2 (JsNumber (Finite 50000)) c []]"
proof -
  have table: "levelMax 1 = 150000 \<and> levelMax 2 = 80000 \<and> levelMax 3 = 20000 \<and>
      (if 4 \<le> l then levelMax l = 15000 else True) \<and> minWords = 50"
    by (simp add: levelMax_def minWords_def)
  have example:
    "validateAndFixTargetWords conv [OutlineItem i t 2 (JsNumber (Finite 800000)) c []] =
       [OutlineItem i t 2 (JsNumber (Finite 50000)) c []]"
    by (simp add: fixTargetWords_def levelMax_def minWords_def Math_min_def Math_max_def)
  from validate_keeps_items validate_length validate_budgets table example show ?thesis
    by blast
qed

text \<open>
  The theorem at the outline of a truncated answer: the budget of 800000 becomes 50000,
  the descriptor without a budget stays without one.
\<close>

theorem validateAndFixTargetWords_clamps_witness:
  "validateAndFixTargetWords noConversion truncatedOutline =
     [OutlineItem (IdStr (js ''1'')) (js ''A'') 2 (JsNumber (Finite 50000)) []
        [OutlineItem (IdStr (js ''1.1'')) (js ''B'') 3 JsUndefined [] []]] \<and>
   list_all2 (budgetFixed noConversion) (allItems truncatedOutline)
     (allItems (validateAndFixTargetWords noConversion truncatedOutline))"
proof -
  have "validateAndFixTargetWords noConversion truncatedOutline =
     [OutlineItem (IdStr (js ''1'')) (js ''A'') 2 (JsNumber (Finite 50000)) []
        [OutlineItem (IdStr (js ''1.1'')) (js ''B'') 3 JsUndefined [] []]]"
    by (simp add: truncatedOutline_def fixTargetWords_def levelMax_def minWords_def
        Math_min_def Math_max_def)
  with validateAndFixTargetWords_clamps[of noConversion truncatedOutline] show ?thesis
    by (intro conjI) simp_all
qed

section \<open>Repair of a payload with unquoted keys\<close>

text \<open>
  C8.  Repairing \<^verbatim>\<open>[{title:"A",targetWords:100}]\<close> gives the text
  \<^verbatim>\<open>[{"title":"A","targetWords":100}]\<close>, which \<open>JSON.parse\<close> decodes to the array
  holding the one object with \<open>title\<close> \<open>"A"\<close> and \<open>targetWords\<close> \<open>100\<close>.
\<close>

theorem repair_unquoted_keys:
  "repairTruncatedJson rawPayload = js ''[{\"title\":\"A\",\"targetWords\":100}]'' \<and>
   JSON_parse (repairTruncatedJson rawPayload) = Some payloadValue"
proof -
  have r: "repairTruncatedJson rawPayload = js ''[{\"title\":\"A\",\"targetWords\":100}]''"
    by (simp add: rawPayload_def repair_defs char_defs)
  have p: "JSON_parse (js ''[{\"title\":\"A\",\"targetWords\":100}]'') = Some payloadValue"
    by (simp add: payloadValue_def parse_defs char_defs)
  from r p show ?thesis by simp
qed

section \<open>The final merge on the scenario of the specification\<close>

text \<open>
  C1 (counterexample).  With the two headings written \<open>##\<close>, as the claim has them, the
  final merge adds no section: a top-level parent is at level 2 and a heading must be
  deeper.  The whole body becomes the content of the parent.
\<close>

theorem final_merge_level2_headings:
  "syncSubSectionsToOutline clockZero [overview] overviewId (bodyWith (js ''##'')) =
     [overview\<lparr>content := bodyWith (js ''##'')\<rparr>]"
  by (simp add: merge_defs title_defs char_defs bodyWith_def overview_def overviewId_def)

text \<open>
  C1 (amended).  With the two headings written \<open>###\<close>, one level below the top-level
  parent, the final merge leaves the parent with the empty text before the first heading
  and adds, right after it, two completed children titled \<open>1.1 \<close> U+80CC U+666F and
  \<open>1.2 \<close> U+76EE U+6807 whose contents are the lines below their headings.
\<close>

theorem final_merge_level3_headings:
  "syncSubSectionsToOutline clock [overview] overviewId (bodyWith (js ''###'')) =
     [overview\<lparr>content := []\<rparr>,
      \<lparr>sec_id = IdStr (js ''sec-1-sub-'' @ showNat (clock 0) @ js ''-0''),
       parentId = Some overviewId,
       title = js ''1.1 '' @ [0x80CC, 0x666F],
       content = [0x5185, 0x5BB9, 0x41],
       targetWords = 500, status = Completed\<rparr>,
      \<lparr>sec_id = IdStr (js ''sec-1-sub-'' @ showNat (clock 1) @ js ''-1''),
       parentId = Some overviewId,
       title = js ''1.2 '' @ [0x76EE, 0x6807],
       content = [0x5185, 0x5BB9, 0x42],
       targetWords = 500, status = Completed\<rparr>]"
  by (simp add: merge_defs title_defs char_defs bodyWith_def overview_def overviewId_def
      showNat_digit)

section \<open>The summary channel\<close>

lemma afterFirst_length: "afterFirst pat xs = Some r \<Longrightarrow> length pat \<le> length xs"
proof (induction xs)
  case Nil
  then show ?case by (simp split: if_splits)
next
  case (Cons c cs)
  show ?case
  proof (cases "take (length pat) (c # cs) = pat")
    case True
    then have "length (take (length pat) (c # cs)) = length pat" by simp
    then show ?thesis by (simp only: length_take min_def split: if_splits)
  next
    case False
    with Cons show ?thesis by simp
  qed
qed

lemma take_append_same:
  "length pat \<le> length xs \<Longrightarrow> take (length pat) (xs @ s) = take (length pat) xs"
  by simp

lemma drop_append_same:
  "length pat \<le> length xs \<Longrightarrow> drop (length pat) (xs @ s) = drop (length pat) xs @ s"
  by simp

lemma afterFirst_append:
  "afterFirst pat b = Some r \<Longrightarrow> afterFirst pat (b @ s) = Some (r @ s)"
proof (induction b)
  case Nil
  then have "pat = []" "r = []" by (simp_all split: if_splits)
  then show ?case by (cases s) simp_all
next
  case (Cons c cs)
  have len: "length pat \<le> length (c # cs)"
    using Cons.prems by (rule afterFirst_length)
  have tk: "take (length pat) (c # cs @ s) = take (length pat) (c # cs)"
    using len take_append_same[of pat "c # cs" s] by simp
  have dr: "drop (length pat) (c # cs @ s) = drop (length pat) (c # cs) @ s"
    using len drop_append_same[of pat "c # cs" s] by simp
  show ?case
  proof (cases "take (length pat) (c # cs) = pat")
    case True
    with Cons.prems tk dr show ?thesis by simp
  next
    case False
    then have rest: "afterFirst pat cs = Some r" using Cons.prems by simp
    then show ?thesis using Cons.IH[OF rest] False tk by simp
  qed
qed

lemma upToFirst_append:
  "afterFirst pat r \<noteq> None \<Longrightarrow> upToFirst pat (r @ s) = upToFirst pat r"
proof (induction r)
  case Nil
  then have "pat = []" by (simp split: if_splits)
  then show ?case by (cases s) simp_all
next
  case (Cons c cs)
  from Cons.prems obtain q where q: "afterFirst pat (c # cs) = Some q" by auto
  have len: "length pat \<le> length (c # cs)"
    using q by (rule afterFirst_length)
  have tk: "take (length pat) (c # cs @ s) = take (length pat) (c # cs)"
    using len take_append_same[of pat "c # cs" s] by simp
  show ?case
  proof (cases "take (length pat) (c # cs) = pat")
    case True
    with tk show ?thesis by simp
  next
    case False
    then have rest: "afterFirst pat cs \<noteq> None" using Cons.prems by simp
    then show ?thesis using Cons.IH[OF rest] False tk by simp
  qed
qed

lemma includesStr_append: "includesStr r pat \<Longrightarrow> includesStr (r @ s) pat"
  unfolding includesStr_def using afterFirst_append by fastforce

text \<open>
  C9 (counterexample).  The buffer \<^verbatim>\<open></summary><summary>x\<close> holds both delimiters, and
  its summary is \<open>x\<close>; after the chunk \<^verbatim>\<open>y</summary>\<close> the summary is \<open>xy\<close>.
\<close>

theorem summary_reopened_after_stray_close:
  "includesStr strayClose (js ''<summary>'') \<and> includesStr strayClose (js ''</summary>'') \<and>
   updateSummary [] strayClose = js ''x'' \<and>
   updateSummary [] (strayClose @ lateClose) = js ''xy''"
  by (simp add: strayClose_def lateClose_def includesStr_def updateSummary_def
      summaryMatch_def trim_def char_defs)

text \<open>
  C9 (amended).  Once a closing delimiter follows the first opening delimiter of the
  buffer, every longer buffer gives the same summary, whatever is appended, and the
  channel stays closed.
\<close>

theorem summary_closed_stable:
  "summaryClosed b \<Longrightarrow>
     updateSummary summary (b @ s) = updateSummary summary b \<and> summaryClosed (b @ s)"
proof -
  assume "summaryClosed b"
  then obtain r where r: "afterFirst (js ''<summary>'') b = Some r"
    and inc: "includesStr r (js ''</summary>'')"
    by (auto simp: summaryClosed_def split: option.splits)
  have r': "afterFirst (js ''<summary>'') (b @ s) = Some (r @ s)"
    using r by (rule afterFirst_append)
  have u: "upToFirst (js ''</summary>'') (r @ s) = upToFirst (js ''</summary>'') r"
    using inc unfolding includesStr_def by (rule upToFirst_append)
  have "summaryMatch (b @ s) = summaryMatch b"
    by (simp only: summaryMatch_def r r' u option.map)
  moreover have "summaryClosed (b @ s)"
    using r' inc by (simp add: summaryClosed_def includesStr_append del: append_assoc)
  ultimately show ?thesis by (simp add: updateSummary_def)
qed

theorem summary_closed_stable_witness:
  "summaryClosed (js ''<summary> a </summary>'') \<and>
   updateSummary [] (js ''<summary> a </summary>'' @ js ''<summary>b</summary>'') = js ''a'' \<and>
   summaryClosed (js ''<summary> a </summary>'' @ js ''<summary>b</summary>'')"
proof -
  have c: "summaryClosed (js ''<summary> a </summary>'')"
    by (simp add: summaryClosed_def includesStr_def char_defs)
  have v: "updateSummary [] (js ''<summary> a </summary>'') = js ''a''"
    by (simp add: updateSummary_def summaryMatch_def trim_def char_defs)
  from summary_closed_stable[OF c, of "[]" "js ''<summary>b</summary>''"] c v
  show ?thesis by simp
qed

section \<open>Hierarchy from numbering\<close>

lemma mset_insertSorted: "mset (insertSorted cmp x ys) = add_mset x (mset ys)"
  by (induction ys) simp_all

lemma mset_sortWith_fold:
  "mset (foldl (\<lambda>acc x. insertSorted cmp x acc) acc xs) = mset acc + mset xs"
  by (induction xs arbitrary: acc) (simp_all add: mset_insertSorted)

lemma mset_sortWith: "mset (sortWith cmp xs) = mset xs"
  by (simp add: sortWith_def mset_sortWith_fold)

text \<open>The map built by the first pass holds, for a prefix, the last section that carries it.\<close>

lemma prefixMap_fold:
  "foldl (\<lambda>m item. if getSectionNumberPrefix (title item) \<noteq> []
                      then m(getSectionNumberPrefix (title item) \<mapsto> sec_id item) else m)
       m0 data k =
     (if k = [] then m0 k
      else case find (\<lambda>t. getSectionNumberPrefix (title t) = k) (rev data) of
        None \<Rightarrow> m0 k | Some t \<Rightarrow> Some (sec_id t))"
  by (induction data rule: rev_induct) auto

lemma prefixMapOf_lookup:
  "k \<noteq> [] \<Longrightarrow> prefixMapOf data k = map_option sec_id (lastWithPrefix k data)"
  by (simp add: prefixMapOf_def prefixMap_fold lastWithPrefix_def split: option.splits)

lemma prefixMapOf_empty: "prefixMapOf data [] = None"
  by (simp add: prefixMapOf_def prefixMap_fold)

lemma withParent_expected:
  "parentId s = None \<Longrightarrow>
     withParent (prefixMapOf data) s = s\<lparr>parentId := expectedParent data s\<rparr>"
  by (cases "joinWith 0x2E (butlast (splitOn 0x2E (getSectionNumberPrefix (title s)))) = []")
    (auto simp: withParent_def expectedParent_def parentPrefixOf_def Let_def
      prefixMapOf_lookup prefixMapOf_empty split: option.splits)

lemma map_withParent:
  "unlinked xs \<Longrightarrow>
     map (withParent (prefixMapOf data)) xs =
     map (\<lambda>s. s\<lparr>parentId := expectedParent data s\<rparr>) xs"
  by (induction xs) (simp_all add: unlinked_def withParent_expected)

lemma expectedParent_cases:
  "expectedParent data s = None \<or> (\<exists>t \<in> set data. expectedParent data s = Some (sec_id t))"
proof (cases "expectedParent data s")
  case None
  then show ?thesis by simp
next
  case (Some i)
  then obtain p t where "lastWithPrefix p data = Some t" and i: "i = sec_id t"
    by (auto simp: expectedParent_def split: option.splits if_splits)
  then have "t \<in> set (rev data)"
    unfolding lastWithPrefix_def find_Some_iff by (metis nth_mem)
  with Some i show ?thesis by auto
qed

text \<open>
  C6 (counterexample).  The first section carries the prefix \<open>1.1\<close> and has the
  identifier \<open>0\<close>; the section titled \<open>1.1.1 Goals\<close> stays a root.
\<close>

theorem reconstruct_zero_id_parent:
  "getSectionNumberPrefix (title (zeroIdOutline ! 0)) = js ''1.1'' \<and>
   map (\<lambda>s. (title s, parentId s)) (reconstructHierarchy zeroIdOutline) =
     [(js ''1.1 Scope'', None), (js ''1.1.1 Goals'', None)]"
  apply (simp add: zeroIdOutline_def plainSection_def reconstructHierarchy_def prefixMapOf_def
      withParent_def Let_def title_defs char_defs)
  apply (simp add: sortWith_def)
  apply (simp add: compareSections_def Let_def title_defs char_defs)
  apply (simp add: partNumber_def partAt_def digitsVal_def char_defs)
  done

text \<open>
  C6 (amended).  For a list without parent links, the result holds exactly the sections of
  the input, each with the parent its numbering asks for: the last section of the list that
  carries the prefix without its last component, when the prefix has at least two
  components, such a section exists and its identifier counts as true (it is neither \<open>0\<close>
  nor the empty string); in every other case the section is a root.
\<close>

theorem reconstruct_parents:
  "unlinked data \<Longrightarrow>
     mset (reconstructHierarchy data) =
     mset (map (\<lambda>s. s\<lparr>parentId := expectedParent data s\<rparr>) data)"
  by (simp add: reconstructHierarchy_def mset_sortWith map_withParent)

theorem reconstruct_parents_witness:
  "unlinked numberedOutline \<and>
   mset (reconstructHierarchy numberedOutline) =
     mset [(plainSection (IdStr (js ''c'')) (js ''1.1.1 Goals''))\<lparr>parentId := Some (IdStr (js ''b''))\<rparr>,
           plainSection (IdStr (js ''a'')) ([0x4E00, 0x3001] @ js ''Overview''),
           plainSection (IdStr (js ''x'')) (js ''Appendix''),
           (plainSection (IdStr (js ''b'')) (js ''1.1 Scope''))\<lparr>parentId := Some (IdStr (js ''a''))\<rparr>,
           plainSection (IdStr (js ''d'')) (js ''2.1 Orphan'')]"
proof -
  have u: "unlinked numberedOutline"
    by (simp add: unlinked_def numberedOutline_def plainSection_def)
  have e: "map (\<lambda>s. s\<lparr>parentId := expectedParent numberedOutline s\<rparr>) numberedOutline =
     [(plainSection (IdStr (js ''c'')) (js ''1.1.1 Goals''))\<lparr>parentId := Some (IdStr (js ''b''))\<rparr>,
      plainSection (IdStr (js ''a'')) ([0x4E00, 0x3001] @ js ''Overview''),
      plainSection (IdStr (js ''x'')) (js ''Appendix''),
      (plainSection (IdStr (js ''b'')) (js ''1.1 Scope''))\<lparr>parentId := Some (IdStr (js ''a''))\<rparr>,
      plainSection (IdStr (js ''d'')) (js ''2.1 Orphan'')]"
    by (simp add: numberedOutline_def plainSection_def expectedParent_def parentPrefixOf_def
        lastWithPrefix_def title_defs char_defs)
  from reconstruct_parents[OF u] u show ?thesis
    by (simp only: e simp_thms)
qed

text \<open>
  C10.  For a list without parent links, taking the parent links off the result gives the
  input again, up to order; and every parent link of the result is \<open>null\<close> or the
  identifier of a section of the input.
\<close>

theorem reconstruct_no_dangling:
  "unlinked data \<Longrightarrow>
     mset (map (\<lambda>s. s\<lparr>parentId := None\<rparr>) (reconstructHierarchy data)) = mset data \<and>
     list_all (\<lambda>s. parentId s = None \<or> (\<exists>t \<in> set data. parentId s = Some (sec_id t)))
       (reconstructHierarchy data)"
proof -
  assume u: "unlinked data"
  let ?out = "map (withParent (prefixMapOf data)) data"
  have m: "mset (reconstructHierarchy data) = mset ?out"
    by (simp add: reconstructHierarchy_def mset_sortWith)
  have o: "?out = map (\<lambda>s. s\<lparr>parentId := expectedParent data s\<rparr>) data"
    using u by (rule map_withParent)
  have "map (\<lambda>s. s\<lparr>parentId := None\<rparr>) (map (\<lambda>s. s\<lparr>parentId := f s\<rparr>) xs) = xs"
    if "list_all (\<lambda>s. parentId s = None) xs" for xs :: "doc_section list" and f
    using that by (induction xs) simp_all
  then have "map (\<lambda>s. s\<lparr>parentId := None\<rparr>) ?out = data"
    using u unfolding o unlinked_def by blast
  then have a: "mset (map (\<lambda>s. s\<lparr>parentId := None\<rparr>) (reconstructHierarchy data)) = mset data"
    using m by (metis mset_map)
  have "\<forall>s \<in> set ?out. parentId s = None \<or> (\<exists>t \<in> set data. parentId s = Some (sec_id t))"
    unfolding o using expectedParent_cases by auto
  then have "\<forall>s \<in> set (reconstructHierarchy data).
      parentId s = None \<or> (\<exists>t \<in> set data. parentId s = Some (sec_id t))"
    using m by (metis set_mset_mset)
  then have b: "list_all (\<lambda>s. parentId s = None \<or> (\<exists>t \<in> set data. parentId s = Some (sec_id t)))
       (reconstructHierarchy data)"
    by (simp add: list_all_iff)
  from a b show ?thesis by simp
qed

theorem reconstruct_no_dangling_witness:
  "unlinked numberedOutline \<and>
   mset (map (\<lambda>s. s\<lparr>parentId := None\<rparr>) (reconstructHierarchy numberedOutline)) =
     mset numberedOutline \<and>
   list_all (\<lambda>s. parentId s = None \<or>
                (\<exists>t \<in> set numberedOutline. parentId s = Some (sec_id t)))
     (reconstructHierarchy numberedOutline)"
proof -
  have u: "unlinked numberedOutline"
    by (simp add: unlinked_def numberedOutline_def plainSection_def)
  from reconstruct_no_dangling[OF u] u show ?thesis by simp
qed

section \<open>Flattening an outline and building the tree again\<close>


lemma loadOutline_Nil: "loadOutline [] = []"
  by (simp add: loadOutline_def)

lemma flat_Cons:
  "loadOutline (flattenOutline (OutlineItem i t l tw c ch # items) p) =
     asSection p (OutlineItem i t l tw c ch) #
       loadOutline (flattenOutline ch (Some i)) @ loadOutline (flattenOutline items p)"
  by (cases ch) (simp_all add: loadOutline_def)

lemma flat_parents:
  "s \<in> set (loadOutline (flattenOutline ts p)) \<Longrightarrow>
     parentId s = p \<or> (\<exists>j \<in> set (outlineIds ts). parentId s = Some j)"
proof (induction ts arbitrary: p rule: allItems.induct)
  case 1
  then show ?case by (simp add: loadOutline_Nil)
next
  case (2 i t l tw c ch items)
  from "2.prems" consider "s = asSection p (OutlineItem i t l tw c ch)"
    | "s \<in> set (loadOutline (flattenOutline ch (Some i)))"
    | "s \<in> set (loadOutline (flattenOutline items p))"
    unfolding flat_Cons by auto
  then show ?case
  proof cases
    case 1
    then show ?thesis by simp
  next
    case 2
    from "2.IH"(1)[OF this] show ?thesis by auto
  next
    case 3
    from "2.IH"(2)[OF this] show ?thesis by auto
  qed
qed

lemma filter_flat_none:
  assumes "q \<noteq> p" and "\<forall>j \<in> set (outlineIds ts). q \<noteq> Some j"
  shows "filter (\<lambda>s. parentId s = q) (loadOutline (flattenOutline ts p)) = []"
proof -
  have "parentId s \<noteq> q" if "s \<in> set (loadOutline (flattenOutline ts p))" for s
    using flat_parents[OF that] assms by auto
  then show ?thesis by (simp add: filter_empty_conv)
qed

lemma filter_flat_roots:
  "\<forall>j \<in> set (outlineIds ts). p \<noteq> Some j \<Longrightarrow>
     filter (\<lambda>s. parentId s = p) (loadOutline (flattenOutline ts p)) = map (asSection p) ts"
proof (induction ts rule: allItems.induct)
  case 1
  then show ?case by (simp add: loadOutline_Nil)
next
  case (2 i t l tw c ch items)
  have a: "filter (\<lambda>s. parentId s = p) (loadOutline (flattenOutline ch (Some i))) = []"
    using "2.prems" by (intro filter_flat_none) auto
  have b: "filter (\<lambda>s. parentId s = p) (loadOutline (flattenOutline items p)) = map (asSection p) items"
    using "2.prems" by (intro "2.IH") auto
  show ?case unfolding flat_Cons by (simp add: a b)
qed

lemma childrenFound_flat:
  "distinct (outlineIds ts) \<Longrightarrow> \<forall>j \<in> set (outlineIds ts). p \<noteq> Some j \<Longrightarrow>
   \<forall>s \<in> set A \<union> set B. \<forall>j \<in> set (outlineIds ts). parentId s \<noteq> Some j \<Longrightarrow>
   childrenFound (A @ loadOutline (flattenOutline ts p) @ B) ts"
proof (induction ts arbitrary: A B p rule: allItems.induct)
  case 1
  then show ?case by simp
next
  case (2 i t l tw c ch items)
  let ?me = "asSection p (OutlineItem i t l tw c ch)"
  let ?fc = "loadOutline (flattenOutline ch (Some i))"
  let ?fi = "loadOutline (flattenOutline items p)"
  let ?L = "A @ loadOutline (flattenOutline (OutlineItem i t l tw c ch # items) p) @ B"
  have L: "?L = A @ ?me # ?fc @ ?fi @ B"
    unfolding flat_Cons by simp
  from "2.prems"(1) have d: "i \<notin> set (outlineIds ch)" "i \<notin> set (outlineIds items)"
    "distinct (outlineIds ch)" "distinct (outlineIds items)"
    by auto
  from "2.prems"(1) have dj: "j \<notin> set (outlineIds items)" if "j \<in> set (outlineIds ch)" for j
    using that by auto
  from "2.prems"(2) have p: "p \<noteq> Some i" "\<forall>j \<in> set (outlineIds ch). p \<noteq> Some j"
    "\<forall>j \<in> set (outlineIds items). p \<noteq> Some j"
    by auto
  have AB1: "parentId s \<noteq> Some i" if "s \<in> set A \<union> set B" for s
    using "2.prems"(3) that by auto
  have AB2: "parentId s \<noteq> Some j" if "s \<in> set A \<union> set B" "j \<in> set (outlineIds ch)" for s j
    using "2.prems"(3) that by auto
  have AB3: "parentId s \<noteq> Some j" if "s \<in> set A \<union> set B" "j \<in> set (outlineIds items)" for s j
    using "2.prems"(3) that by auto
  have fA: "filter (\<lambda>s. parentId s = Some i) A = []" "filter (\<lambda>s. parentId s = Some i) B = []"
    using AB1 by (auto simp: filter_empty_conv)
  have fch: "filter (\<lambda>s. parentId s = Some i) ?fc = map (asSection (Some i)) ch"
    using d(1) by (intro filter_flat_roots) auto
  have fit: "filter (\<lambda>s. parentId s = Some i) ?fi = []"
    using p(1) d(2) by (intro filter_flat_none) auto
  have me: "parentId ?me = p" by simp
  have one: "filter (\<lambda>s. parentId s = Some i) ?L = map (asSection (Some i)) ch"
    unfolding L using fA fch fit p(1) me by (simp del: asSection.simps)
  have two: "childrenFound ?L ch"
  proof -
    have "\<forall>s\<in>set (A @ [?me]) \<union> set (?fi @ B). \<forall>j \<in> set (outlineIds ch). parentId s \<noteq> Some j"
    proof (intro ballI)
      fix s j
      assume s: "s \<in> set (A @ [?me]) \<union> set (?fi @ B)" and j: "j \<in> set (outlineIds ch)"
      from s consider "s \<in> set A \<union> set B" | "s = ?me" | "s \<in> set ?fi" by auto
      then show "parentId s \<noteq> Some j"
      proof cases
        case 1
        then show ?thesis using AB2 j by simp
      next
        case 2
        then show ?thesis using p(2) j me by simp
      next
        case 3
        from flat_parents[OF 3] show ?thesis
        proof
          assume "parentId s = p"
          then show ?thesis using p(2) j by simp
        next
          assume "\<exists>k \<in> set (outlineIds items). parentId s = Some k"
          then obtain k where "k \<in> set (outlineIds items)" "parentId s = Some k" by blast
          then show ?thesis using dj[OF j] by auto
        qed
      qed
    qed
    moreover have "\<forall>j \<in> set (outlineIds ch). Some i \<noteq> Some j"
      using d(1) by auto
    ultimately have "childrenFound ((A @ [?me]) @ ?fc @ (?fi @ B)) ch"
      using d(3) by (intro "2.IH"(1))
    then show ?thesis unfolding L by simp
  qed
  have three: "childrenFound ?L items"
  proof -
    have "\<forall>s\<in>set (A @ ?me # ?fc) \<union> set B. \<forall>j \<in> set (outlineIds items). parentId s \<noteq> Some j"
    proof (intro ballI)
      fix s j
      assume s: "s \<in> set (A @ ?me # ?fc) \<union> set B" and j: "j \<in> set (outlineIds items)"
      from s consider "s \<in> set A \<union> set B" | "s = ?me" | "s \<in> set ?fc" by auto
      then show "parentId s \<noteq> Some j"
      proof cases
        case 1
        then show ?thesis using AB3 j by simp
      next
        case 2
        then show ?thesis using p(3) j me by simp
      next
        case 3
        from flat_parents[OF 3] show ?thesis
        proof
          assume "parentId s = Some i"
          then show ?thesis using d(2) j by auto
        next
          assume "\<exists>k \<in> set (outlineIds ch). parentId s = Some k"
          then obtain k where "k \<in> set (outlineIds ch)" "parentId s = Some k" by blast
          then show ?thesis using dj[of k] j by auto
        qed
      qed
    qed
    then have "childrenFound ((A @ ?me # ?fc) @ ?fi @ B) items"
      using d(4) p(3) by (intro "2.IH"(2))
    then show ?thesis unfolding L by simp
  qed
  from one two three show ?case by simp
qed


lemma outlineDepth_zero: "outlineDepth ts = 0 \<Longrightarrow> ts = []"
  by (cases ts rule: outlineDepth.cases) simp_all

lemma sec_id_asSection: "sec_id (asSection p x) = item_id x"
  by (cases x) simp

lemma outlineSkeleton_sel: "outlineSkeleton x = Skeleton (item_id x) (map outlineSkeleton (children x))"
  by (cases x) simp

lemma buildTree_level:
  assumes f: "filter (\<lambda>s. parentId s = p) secs = map (asSection p) ts"
    and d: "d \<le> 10"
    and kids: "\<forall>x \<in> set ts. map treeSkeleton (buildTree secs (Some (item_id x)) (d + 1)) =
                 map outlineSkeleton (children x)"
  shows "map treeSkeleton (buildTree secs p d) = map outlineSkeleton ts"
proof -
  have "buildTree secs p d =
      map (\<lambda>item. TreeNode (sec_id item)
                    (if title item \<noteq> [] then title item
                     else [0x672A, 0x547D, 0x540D, 0x7AE0, 0x8282])
                    (targetWords item) (status item)
                    (buildTree secs (Some (sec_id item)) (d + 1) = [])
                    (buildTree secs (Some (sec_id item)) (d + 1)))
        (map (asSection p) ts)"
    using d by (subst buildTree.simps) (simp add: f)
  then have "map treeSkeleton (buildTree secs p d) =
      map (\<lambda>x. Skeleton (item_id x)
                 (map treeSkeleton (buildTree secs (Some (item_id x)) (d + 1)))) ts"
    by (simp add: sec_id_asSection comp_def)
  also have "\<dots> = map (\<lambda>x. Skeleton (item_id x) (map outlineSkeleton (children x))) ts"
    using kids by (intro map_cong) auto
  also have "\<dots> = map outlineSkeleton ts"
    by (intro map_cong) (simp_all add: outlineSkeleton_sel[symmetric])
  finally show ?thesis .
qed

lemma buildTree_children:
  "childrenFound secs ts \<Longrightarrow> d + outlineDepth ts \<le> 11 \<Longrightarrow> x \<in> set ts \<Longrightarrow>
     map treeSkeleton (buildTree secs (Some (item_id x)) (d + 1)) = map outlineSkeleton (children x)"
proof (induction ts arbitrary: d x rule: allItems.induct)
  case 1
  then show ?case by simp
next
  case (2 i t l tw c ch items)
  from "2.prems"(1) have f: "filter (\<lambda>s. parentId s = Some i) secs = map (asSection (Some i)) ch"
    and cf: "childrenFound secs ch" "childrenFound secs items"
    by simp_all
  from "2.prems"(2) have dep: "(d + 1) + outlineDepth ch \<le> 11" "d + outlineDepth items \<le> 11"
    by simp_all
  from "2.prems"(3) consider "x = OutlineItem i t l tw c ch" | "x \<in> set items" by auto
  then show ?case
  proof cases
    case 1
    show ?thesis
    proof (cases "d + 1 \<le> 10")
      case True
      have "\<forall>y \<in> set ch. map treeSkeleton (buildTree secs (Some (item_id y)) (d + 1 + 1)) =
                 map outlineSkeleton (children y)"
        using "2.IH"(1)[OF cf(1) dep(1)] by blast
      from buildTree_level[OF f True this] show ?thesis using 1 by simp
    next
      case False
      with dep(1) have "outlineDepth ch = 0" by simp
      then have "ch = []" by (rule outlineDepth_zero)
      moreover have "buildTree secs (Some i) (d + 1) = []"
        using False by (subst buildTree.simps) simp
      ultimately show ?thesis using 1 by simp
    qed
  next
    case 2
    from "2.IH"(2)[OF cf(2) dep(2) this] show ?thesis .
  qed
qed

text \<open>
  C7 (amended).  For an outline whose identifiers are all different and which has at most
  eleven nesting levels, flattening it, loading the flat list as the document and building
  the tree gives a forest of the same shape: the same nodes with the same children in the
  same order.
\<close>

theorem flatten_rebuild_roundtrip:
  assumes "distinct (outlineIds nestedOutline)" and "outlineDepth nestedOutline \<le> 11"
  shows "map treeSkeleton (treeData (loadOutline (parseNestedOutline nestedOutline))) =
           map outlineSkeleton nestedOutline"
proof -
  let ?secs = "loadOutline (parseNestedOutline nestedOutline)"
  have roots: "filter (\<lambda>s. parentId s = None) ?secs = map (asSection None) nestedOutline"
    unfolding parseNestedOutline_def by (rule filter_flat_roots) simp
  have "childrenFound ([] @ loadOutline (flattenOutline nestedOutline None) @ []) nestedOutline"
    using assms(1) by (intro childrenFound_flat) simp_all
  then have cf: "childrenFound ?secs nestedOutline"
    by (simp add: parseNestedOutline_def)
  have "\<forall>x \<in> set nestedOutline.
      map treeSkeleton (buildTree ?secs (Some (item_id x)) (0 + 1)) = map outlineSkeleton (children x)"
    using buildTree_children[OF cf, of 0] assms(2) by simp
  from buildTree_level[OF roots _ this] show ?thesis
    by (simp add: treeData_def)
qed


theorem flatten_rebuild_roundtrip_witness:
  "distinct (outlineIds sampleOutline) \<and> outlineDepth sampleOutline \<le> 11 \<and>
   map treeSkeleton (treeData (loadOutline (parseNestedOutline sampleOutline))) =
     [Skeleton (IdStr (js ''1''))
        [Skeleton (IdStr (js ''1.1'')) [],
         Skeleton (IdStr (js ''1.2'')) [Skeleton (IdStr (js ''1.2.1'')) []]],
      Skeleton (IdStr (js ''2'')) []]"
proof -
  have d: "distinct (outlineIds sampleOutline)"
    by (simp add: sampleOutline_def js_def)
  have h: "outlineDepth sampleOutline \<le> 11"
    by (simp add: sampleOutline_def)
  have s: "map outlineSkeleton sampleOutline =
     [Skeleton (IdStr (js ''1''))
        [Skeleton (IdStr (js ''1.1'')) [],
         Skeleton (IdStr (js ''1.2'')) [Skeleton (IdStr (js ''1.2.1'')) []]],
      Skeleton (IdStr (js ''2'')) []]"
    by (simp add: sampleOutline_def)
  from flatten_rebuild_roundtrip[OF d h] d h s show ?thesis by simp
qed

text \<open>
  C7 (counterexample).  A chain of twelve descriptors, each the only child of the one
  before, has twelve different identifiers; the tree built from its flat list stops at
  the eleventh node, so its shape is not the shape of the outline.
\<close>

theorem flatten_rebuild_depth_twelve:
  "outlineDepth (chain 12 1) = 12 \<and> distinct (outlineIds (chain 12 1)) \<and>
   map treeSkeleton (treeData (loadOutline (parseNestedOutline (chain 12 1)))) \<noteq>
     map outlineSkeleton (chain 12 1)"
  apply (simp add: chain.simps)
  apply (simp add: parseNestedOutline_def loadOutline_def treeData_def)
  apply (simp add: buildTree.simps)
  done

section \<open>Repairing twice\<close>

subsection \<open>Replacement and automata\<close>



subsection \<open>What the matchers match\<close>






subsection \<open>The scan\<close>

lemma scanText_Nil [simp]: "scanText st [] = st"
  by (simp add: scanText_def)

lemma scanText_None [simp]: "scanText None s = None"
  by (induction s) (simp_all add: scanText_def)

lemma scanText_Cons [simp]: "scanText (Some t) (c # cs) = scanText (scanChar t c) cs"
  by (simp add: scanText_def)




























subsection \<open>Pairs across white space\<close>

lemma gapStep_space [simp]: "isSpace c \<Longrightarrow> gapStep x Y st c = st"
  by (simp add: gapStep_def)

lemma gapStep_other [simp]:
  "\<not> isSpace c \<Longrightarrow> gapStep x Y st c = (c = x, snd st \<or> (fst st \<and> Y c))"
  by (simp add: gapStep_def)

lemma gap_spaces [simp]: "list_all isSpace ws \<Longrightarrow> foldl (gapStep x Y) st ws = st"
  by (induction ws) simp_all













lemma nextIs_space [simp]: "isSpace c \<Longrightarrow> nextIs P (c # cs) = nextIs P cs"
  by (simp add: nextIs_def)

lemma nextIs_other [simp]: "\<not> isSpace c \<Longrightarrow> nextIs P (c # cs) = P c"
  by (simp add: nextIs_def)

lemma nextIs_Nil [simp]: "\<not> nextIs P []"
  by (simp add: nextIs_def)













subsection \<open>Keys without quotes\<close>







lemma keyStep_start [simp]: "c = 0x7B \<or> c = 0x2C \<Longrightarrow> keyStep st c = (Opened, snd st)"
  by (auto simp: keyStep_def)









subsection \<open>The ends of the text\<close>
































subsection \<open>Settled text\<close>







subsection \<open>Repairing the result again\<close>


text \<open>
  Four more inputs on which a second repair changes the text again, one for each of the
  other conditions of the theorem below: a fence behind a fence, a closer that is
  dropped and leaves white space at the end, a backslash at the end of an open string,
  and white space before a comma at the end.
\<close>

lemma repair_twice_changes:
  "repairTruncatedJson (fence @ js ''json'' @ fence @ js ''json[]'') = fence @ js ''json[]'' \<and>
   repairTruncatedJson (fence @ js ''json[]'') = js ''[]'' \<and>
   repairTruncatedJson (js ''a }'') = js ''a '' \<and> repairTruncatedJson (js ''a '') = js ''a'' \<and>
   repairTruncatedJson [0x22, 0x5C] = [0x22, 0x5C, 0x22] \<and>
   repairTruncatedJson [0x22, 0x5C, 0x22] = [0x22, 0x5C, 0x22, 0x22] \<and>
   repairTruncatedJson (js ''1 ,'') = js ''1 '' \<and> repairTruncatedJson (js ''1 '') = js ''1''"
  by (simp add: repair_defs char_defs)



section \<open>Titles across the merges\<close>































text \<open>
  Why the hypothesis on the synthesized titles is there: a heading written with a space
  inside its bold markers normalizes to a title with a leading space, which no section
  of the third document has; the child made from it is titled with the number of its
  parent and normalizes to \<open>foo\<close>, the normalized title of the other section.
\<close>

lemma merge_spaced_heading:
  "normTitles fooOutline = [[0x603B, 0x89C8], js ''foo''] \<and>
   map headingTitle (headings spacedHeading) = [js '' foo''] \<and>
   normTitles (syncSubSectionsToOutlineRealtime clockZero fooOutline overviewId spacedHeading) =
     [[0x603B, 0x89C8], js ''foo'', js ''foo''] \<and>
   normTitles (syncSubSectionsToOutline clockZero fooOutline overviewId spacedHeading) =
     [[0x603B, 0x89C8], js ''foo'', js ''foo'']"
proof -
  have a: "normTitles fooOutline = [[0x603B, 0x89C8], js ''foo'']"
    by (simp add: normTitles_def fooOutline_def plainSection_def overview_def title_defs char_defs)
  have b: "map headingTitle (headings spacedHeading) = [js '' foo'']"
    by (simp add: headingTitle_def headings_def headingAt_def spacedHeading_def title_defs
        char_defs)
  have c: "normTitles (syncSubSectionsToOutlineRealtime clockZero fooOutline overviewId spacedHeading) =
     [[0x603B, 0x89C8], js ''foo'', js ''foo'']"
    by (simp add: normTitles_def fooOutline_def plainSection_def spacedHeading_def merge_defs
        title_defs char_defs overview_def overviewId_def clockZero_def showNat_digit)
  have d: "normTitles (syncSubSectionsToOutline clockZero fooOutline overviewId spacedHeading) =
     [[0x603B, 0x89C8], js ''foo'', js ''foo'']"
    by (simp add: normTitles_def fooOutline_def plainSection_def spacedHeading_def merge_defs
        title_defs char_defs overview_def overviewId_def clockZero_def showNat_digit)
  from a b c d show ?thesis by simp
qed

end
